theory Spec2Isabelle
  imports Complex_Main "HOL-Library.Word"
begin

section \<open>Python values, errors and numpy arrays\<close>

text \<open>
  The development embeds \<^verbatim>\<open>MDAnalysis/coordinates/TRZ.py\<close>: the class \<^verbatim>\<open>Timestep\<close>
  and the class \<^verbatim>\<open>TRZReader\<close>.

  Exceptions are values. \<open>StructError\<close> is \<^verbatim>\<open>struct.error\<close>; \<open>IOError None\<close> is the bare
  \<^verbatim>\<open>raise IOError\<close> of \<^verbatim>\<open>_read_next_timestep\<close> (the end of the stream);
  \<open>IOError (Some ENOENT)\<close> and \<open>IOError (Some EALREADY)\<close> are the two errors of
  \<^verbatim>\<open>open_trajectory\<close>. \<open>ValueError\<close>, \<open>AttributeError\<close> and \<open>IndexError\<close> are the
  exceptions Python and numpy raise on a bad argument, an attribute that was never
  assigned, and an index outside an array.

  Python numbers are modelled as reals: the rounding of float32 and float64 is not
  modelled, and an IEEE infinity or NaN has no counterpart.
\<close>

type_synonym byte = "8 word"

datatype errno = EALREADY | ENOENT

datatype pyerror =
    StructError
  | IOError "errno option"
  | ValueError string
  | AttributeError
  | IndexError

definition is_IOError :: "pyerror \<Rightarrow> bool" where
  "is_IOError e = (case e of IOError _ \<Rightarrow> True | _ \<Rightarrow> False)"

text \<open>
  A numpy array: its shape and its elements in row-major (logical) order. The memory
  order (\<^verbatim>\<open>order='F'\<close>) does not change what an index denotes and is not modelled.
\<close>

record ndarray =
  shape :: "nat list"
  data :: "real list"

definition wf_array :: "ndarray \<Rightarrow> bool" where
  "wf_array a = (length (data a) = prod_list (shape a))"

text \<open>\<^verbatim>\<open>numpy.zeros(shape)\<close>: numpy refuses a negative dimension with a ValueError.\<close>

definition np_zeros :: "int list \<Rightarrow> pyerror + ndarray" where
  "np_zeros sh =
     (if list_ex (\<lambda>d. d < 0) sh then Inl (ValueError ''negative dimensions are not allowed'')
      else Inr \<lparr>shape = map nat sh, data = replicate (prod_list (map nat sh)) 0\<rparr>)"

text \<open>
  \<^verbatim>\<open>a[:] = vs\<close> for a tuple \<open>vs\<close>: numpy broadcasts the tuple along the last axis of
  \<open>a\<close>; a tuple of one element fills the array; any other length is a ValueError.
\<close>

definition assign_all :: "ndarray \<Rightarrow> real list \<Rightarrow> pyerror + ndarray" where
  "assign_all a vs =
     (if shape a = [] then Inl IndexError
      else if length vs = last (shape a) then
        Inr (a\<lparr>data := map (\<lambda>n. vs ! (n mod last (shape a))) [0..<length (data a)]\<rparr>)
      else if length vs = 1 then
        Inr (a\<lparr>data := map (\<lambda>n. vs ! 0) [0..<length (data a)]\<rparr>)
      else Inl (ValueError ''shape mismatch''))"

text \<open>
  \<^verbatim>\<open>a[:, j] = vs\<close> for a tuple \<open>vs\<close>: the column \<open>j\<close> of the second axis. The element
  with flat index \<open>n\<close> of an array of shape \<open>d0 # d1 # rest\<close> has the second index
  \<open>(n div r) mod d1\<close>, where \<open>r\<close> is the product of \<open>rest\<close>. For a 2-dimensional array the
  selected view has shape \<open>[d0]\<close>; for more dimensions the tuple is broadcast along the
  last axis.
\<close>

definition assign_col :: "ndarray \<Rightarrow> nat \<Rightarrow> real list \<Rightarrow> pyerror + ndarray" where
  "assign_col a j vs =
     (if length (shape a) < 2 \<or> shape a ! 1 \<le> j then Inl IndexError
      else
        let d0 = shape a ! 0; d1 = shape a ! 1; r = prod_list (drop 2 (shape a));
            l = (if length (shape a) = 2 then d0 else last (shape a))
        in if length vs = l \<or> length vs = 1 then
             Inr (a\<lparr>data := map (\<lambda>n.
                   if (n div r) mod d1 = j
                   then vs ! (if length vs = 1 then 0
                              else if length (shape a) = 2 then n div (d1 * r)
                              else n mod l)
                   else data a ! n) [0..<length (data a)]\<rparr>)
           else Inl (ValueError ''shape mismatch''))"

text \<open>\<^verbatim>\<open>a[:, j]\<close> read as a list, for a 2-dimensional array.\<close>

definition column :: "ndarray \<Rightarrow> nat \<Rightarrow> real list" where
  "column a j = map (\<lambda>i. data a ! (i * (shape a ! 1) + j)) [0..<shape a ! 0]"

text \<open>\<^verbatim>\<open>a[i:j]\<close>: a slice along the first axis.\<close>

definition slice0 :: "nat \<Rightarrow> nat \<Rightarrow> ndarray \<Rightarrow> ndarray" where
  "slice0 i j a =
     (let r = prod_list (tl (shape a))
      in \<lparr>shape = (min j (hd (shape a)) - i) # tl (shape a),
          data = take ((min j (hd (shape a)) - i) * r) (drop (i * r) (data a))\<rparr>)"

section \<open>The store of arrays\<close>

text \<open>
  Arrays are mutable objects and several names may denote one array, so arrays live in
  a store and a \<^verbatim>\<open>Timestep\<close> holds their addresses. \<open>alloc\<close> is the creation of a new
  array object.
\<close>

record store =
  arrays :: "nat \<Rightarrow> ndarray"
  fresh :: nat

definition alloc :: "ndarray \<Rightarrow> store \<Rightarrow> nat \<times> store" where
  "alloc a s = (fresh s, s\<lparr>arrays := (arrays s)(fresh s := a), fresh := Suc (fresh s)\<rparr>)"

section \<open>Timestep\<close>

text \<open>
  A scalar attribute of a \<^verbatim>\<open>Timestep\<close> is a float, or the 1-tuple that
  \<^verbatim>\<open>struct.unpack('d', ...)\<close> returns where the source does not index it.
\<close>

datatype pyval = PyFloat real | PyTuple "real list"

text \<open>
  The attributes of a \<^verbatim>\<open>Timestep\<close> object. An attribute that a constructor branch does
  not assign is \<open>None\<close>: reading it raises AttributeError. \<open>unitcell\<close>, \<open>pos\<close>,
  \<open>velocities\<close> are \<^verbatim>\<open>_unitcell\<close>, \<^verbatim>\<open>_pos\<close>, \<^verbatim>\<open>_velocities\<close>. The views \<^verbatim>\<open>_x\<close>,
  \<^verbatim>\<open>_y\<close>, \<^verbatim>\<open>_z\<close> are the columns 0, 1, 2 of the array \<open>pos\<close>: they are not attributes
  of the record, and a write through one of them is a write to that column.
\<close>

record Timestep =
  frame :: int
  numatoms :: int
  time :: "real option"
  pressure :: "pyval option"
  pressure_tensor :: "nat option"
  total_energy :: "pyval option"
  potential_energy :: "pyval option"
  kinetic_energy :: "pyval option"
  temperature :: "pyval option"
  unitcell :: nat
  pos :: nat
  velocities :: "nat option"
  status :: "int option"
  step :: "int option"

text \<open>
  The argument of the constructor, by its Python type. \<open>ArgInt\<close> is an \<^verbatim>\<open>int\<close>;
  \<open>ArgTimestep\<close> a \<^verbatim>\<open>Timestep\<close> of this module; \<open>ArgArray\<close> a \<^verbatim>\<open>numpy.ndarray\<close>;
  the others are values of the types \<^verbatim>\<open>NoneType\<close>, \<^verbatim>\<open>float\<close>, \<^verbatim>\<open>str\<close> and \<^verbatim>\<open>bool\<close>,
  whose numpy dtype differs from that of \<^verbatim>\<open>int\<close>.
\<close>

datatype pyarg =
    ArgInt int
  | ArgTimestep Timestep
  | ArgArray ndarray
  | ArgNone
  | ArgFloat real
  | ArgStr string
  | ArgBool bool

text \<open>
  The views \<^verbatim>\<open>self._pos[:,0]\<close>, \<^verbatim>\<open>self._pos[:,1]\<close>, \<^verbatim>\<open>self._pos[:,2]\<close> at the end of
  the constructor exist when the array has a second axis of length 3 at least.
\<close>

definition has_xyz :: "ndarray \<Rightarrow> bool" where
  "has_xyz a = (2 \<le> length (shape a) \<and> 3 \<le> shape a ! 1)"

text \<open>The branch of the constructor for an \<^verbatim>\<open>int\<close>.\<close>

definition Timestep_of_int :: "int \<Rightarrow> store \<Rightarrow> (pyerror + Timestep) \<times> store" where
  "Timestep_of_int n s =
     (let (pt, s1) = alloc \<lparr>shape = [6], data = replicate 6 0\<rparr> s
      in case np_zeros [n, 3] of
           Inl e \<Rightarrow> (Inl e, s1)
         | Inr z \<Rightarrow>
             let (p, s2) = alloc z s1;
                 (v, s3) = alloc z s2;
                 (u, s4) = alloc \<lparr>shape = [9], data = replicate 9 0\<rparr> s3
             in (Inr \<lparr>frame = 0, numatoms = n, time = Some 0, pressure = Some (PyFloat 0),
                      pressure_tensor = Some pt, total_energy = Some (PyFloat 0),
                      potential_energy = Some (PyFloat 0), kinetic_energy = Some (PyFloat 0),
                      temperature = Some (PyFloat 0), unitcell = u, pos = p,
                      velocities = Some v, status = None, step = None\<rparr>, s4))"

text \<open>
  The copy constructor. It reads the attributes of \<open>arg\<close> in the order of the source, and
  the first one that was never assigned raises AttributeError; \<^verbatim>\<open>numpy.array(a)\<close>
  creates a new array with the shape and the elements of \<open>a\<close>.
\<close>

definition Timestep_copy :: "Timestep \<Rightarrow> store \<Rightarrow> (pyerror + Timestep) \<times> store" where
  "Timestep_copy arg s =
     (case (time arg, pressure arg, pressure_tensor arg) of
        (Some t, Some p, Some pta) \<Rightarrow>
          (let (pt, s1) = alloc (arrays s pta) s
           in case (total_energy arg, potential_energy arg, kinetic_energy arg,
                    temperature arg) of
                (Some te, Some pe, Some ke, Some tp) \<Rightarrow>
                  (let (u, s2) = alloc (arrays s1 (unitcell arg)) s1;
                       (q, s3) = alloc (arrays s2 (pos arg)) s2
                   in case velocities arg of
                        None \<Rightarrow> (Inl AttributeError, s3)
                      | Some va \<Rightarrow>
                          (let (v, s4) = alloc (arrays s3 va) s3
                           in if has_xyz (arrays s4 q) then
                                (Inr \<lparr>frame = frame arg, numatoms = numatoms arg,
                                      time = Some t, pressure = Some p,
                                      pressure_tensor = Some pt, total_energy = Some te,
                                      potential_energy = Some pe, kinetic_energy = Some ke,
                                      temperature = Some tp, unitcell = u, pos = q,
                                      velocities = Some v, status = None, step = None\<rparr>, s4)
                              else (Inl IndexError, s4)))
              | _ \<Rightarrow> (Inl AttributeError, s1))
      | _ \<Rightarrow> (Inl AttributeError, s))"

text \<open>
  The branch for a numpy array: \<^verbatim>\<open>_unitcell\<close>, \<^verbatim>\<open>frame\<close>, \<^verbatim>\<open>numatoms\<close> and \<^verbatim>\<open>_pos\<close>
  are the only attributes it assigns. Both arms of the test on \<^verbatim>\<open>arg.shape[1]\<close> assign
  \<^verbatim>\<open>arg.shape[0]\<close> to \<^verbatim>\<open>numatoms\<close>.
\<close>

definition Timestep_of_array :: "ndarray \<Rightarrow> store \<Rightarrow> (pyerror + Timestep) \<times> store" where
  "Timestep_of_array a s =
     (if length (shape a) \<noteq> 2 then
        (Inl (ValueError ''numpy array can only have 2 dimensions''), s)
      else
        let (u, s1) = alloc \<lparr>shape = [9], data = replicate 9 0\<rparr> s;
            n = (if shape a ! 1 = 3 then shape a ! 0 else shape a ! 0);
            (p, s2) = alloc a s1
        in if has_xyz a then
             (Inr \<lparr>frame = 0, numatoms = int n, time = None, pressure = None,
                   pressure_tensor = None, total_energy = None, potential_energy = None,
                   kinetic_energy = None, temperature = None, unitcell = u, pos = p,
                   velocities = None, status = None, step = None\<rparr>, s2)
           else (Inl IndexError, s2))"

text \<open>\<^verbatim>\<open>Timestep.__init__\<close>: the dispatch on the type of the argument.\<close>

definition Timestep_init :: "pyarg \<Rightarrow> store \<Rightarrow> (pyerror + Timestep) \<times> store" where
  "Timestep_init arg s =
     (case arg of
        ArgInt n \<Rightarrow> Timestep_of_int n s
      | ArgTimestep t \<Rightarrow> Timestep_copy t s
      | ArgArray a \<Rightarrow> Timestep_of_array a s
      | _ \<Rightarrow> (Inl (ValueError ''Cannot create an empty Timestep''), s))"

text \<open>
  \<^verbatim>\<open>Timestep.dimensions\<close>. \<^verbatim>\<open>triclinic_box\<close> belongs to
  \<^verbatim>\<open>MDAnalysis.coordinates.core\<close>, which is not part of the sources at hand: it is the
  parameter \<open>triclinic_box\<close>.
\<close>

definition dimensions ::
  "(ndarray \<Rightarrow> ndarray \<Rightarrow> ndarray \<Rightarrow> 'b) \<Rightarrow> store \<Rightarrow> Timestep \<Rightarrow> 'b" where
  "dimensions triclinic_box s t =
     (let x = slice0 0 3 (arrays s (unitcell t));
          y = slice0 3 6 (arrays s (unitcell t));
          z = slice0 6 9 (arrays s (unitcell t))
      in triclinic_box x y z)"

section \<open>Bytes and \<^verbatim>\<open>struct.unpack\<close>\<close>

text \<open>
  The native byte order is taken to be little-endian. \<open>int32_val\<close> is the value of a
  C \<^verbatim>\<open>int\<close>; \<open>double_val\<close> and \<open>single_val\<close> are the values of the finite IEEE 754
  numbers of 64 and 32 bits (sign, biased exponent, fraction; an exponent field of zero
  is a subnormal number).
\<close>

definition le_nat :: "byte list \<Rightarrow> nat" where
  "le_nat bs = foldr (\<lambda>b n. unat b + 256 * n) bs 0"

definition int32_val :: "byte list \<Rightarrow> int" where
  "int32_val bs = sint (word_of_nat (le_nat bs) :: 32 word)"

definition scale2 :: "real \<Rightarrow> int \<Rightarrow> real" where
  "scale2 x k = (if 0 \<le> k then x * 2 ^ nat k else x / 2 ^ nat (- k))"

definition double_val :: "byte list \<Rightarrow> real" where
  "double_val bs =
     (let w = le_nat bs; m = w mod 2 ^ 52; e = (w div 2 ^ 52) mod 2048
      in (if w div 2 ^ 63 = 1 then - 1 else 1) *
         (if e = 0 then scale2 (real m) (- 1074)
          else scale2 (real (2 ^ 52 + m)) (int e - 1075)))"

definition single_val :: "byte list \<Rightarrow> real" where
  "single_val bs =
     (let w = le_nat bs; m = w mod 2 ^ 23; e = (w div 2 ^ 23) mod 256
      in (if w div 2 ^ 31 = 1 then - 1 else 1) *
         (if e = 0 then scale2 (real m) (- 149)
          else scale2 (real (2 ^ 23 + m)) (int e - 150)))"

definition chunks :: "nat \<Rightarrow> 'a list \<Rightarrow> 'a list list" where
  "chunks k bs = map (\<lambda>i. take k (drop (i * k) bs)) [0..<length bs div k]"

text \<open>
  \<^verbatim>\<open>struct.unpack(fmt, bs)\<close> raises \<^verbatim>\<open>struct.error\<close> unless \<open>bs\<close> has exactly the size
  of the format. \<open>unpack_i\<close> is the format \<^verbatim>\<open>'i'\<close>; \<open>unpack_d k\<close> the formats \<^verbatim>\<open>'d'\<close>,
  \<^verbatim>\<open>'6d'\<close>, \<^verbatim>\<open>'9d'\<close>; \<open>unpack_f natoms\<close> the format \<^verbatim>\<open>str(natoms) + 'f'\<close>, which is
  not a format at all when \<open>natoms\<close> is negative.
\<close>

definition unpack_i :: "byte list \<Rightarrow> pyerror + int" where
  "unpack_i bs = (if length bs = 4 then Inr (int32_val bs) else Inl StructError)"

definition unpack_d :: "nat \<Rightarrow> byte list \<Rightarrow> pyerror + real list" where
  "unpack_d k bs =
     (if length bs = 8 * k then Inr (map double_val (chunks 8 bs)) else Inl StructError)"

definition unpack_f :: "int \<Rightarrow> byte list \<Rightarrow> pyerror + real list" where
  "unpack_f natoms bs =
     (if natoms < 0 then Inl StructError
      else if length bs = 4 * nat natoms then Inr (map single_val (chunks 4 bs))
      else Inl StructError)"

section \<open>TRZReader\<close>

text \<open>
  The state of a reader and of the part of the world it acts on.
  \<open>path_content\<close> is the file system at \<^verbatim>\<open>self.filename\<close>: \<open>None\<close> when the path does
  not exist, the bytes of the file otherwise. \<open>trzfile\<close> is the open file object, with
  the bytes it reads and its position, \<open>None\<close> when the reader holds no file.
  \<open>numatoms_cache\<close>, \<open>numframes_cache\<close>, \<open>delta_cache\<close> are \<^verbatim>\<open>__numatoms\<close>,
  \<^verbatim>\<open>__numframes\<close>, \<^verbatim>\<open>__delta\<close>. \<open>ts\<close> is the one \<^verbatim>\<open>Timestep\<close> of the reader and
  \<open>heap\<close> the store of arrays. \<open>length_factor\<close> and \<open>velocity_factor\<close> stand for the
  unit conversion configured outside this module.
\<close>

datatype natoms_val = NInt int | NTuple "int list"

record TRZReader =
  path_content :: "byte list option"
  trzfile :: "(byte list \<times> nat) option"
  convert_units :: bool
  length_factor :: real
  velocity_factor :: real
  numatoms_cache :: "natoms_val option"
  numframes_cache :: "int option"
  delta_cache :: "real option"
  ts :: Timestep
  heap :: store

text \<open>
  A method is a function from the state to a result and the state it leaves: an
  exception leaves a state too, with everything the method did before it was raised.
\<close>

type_synonym 'a act = "TRZReader \<Rightarrow> (pyerror + 'a) \<times> TRZReader"

definition ret :: "'a \<Rightarrow> 'a act" where
  "ret x r = (Inr x, r)"

definition lift :: "pyerror + 'a \<Rightarrow> 'a act" where
  "lift v r = (v, r)"

definition bnd :: "'a act \<Rightarrow> ('a \<Rightarrow> 'b act) \<Rightarrow> 'b act" where
  "bnd m f r = (case m r of (Inl e, r') \<Rightarrow> (Inl e, r') | (Inr x, r') \<Rightarrow> f x r')"

text \<open>\<^verbatim>\<open>try: ... except struct.error: raise IOError\<close>\<close>

definition except_struct :: "'a act \<Rightarrow> 'a act" where
  "except_struct m r =
     (case m r of (Inl StructError, r') \<Rightarrow> (Inl (IOError None), r') | other \<Rightarrow> other)"

text \<open>
  \<^verbatim>\<open>f.seek(k, 1)\<close> and \<^verbatim>\<open>f.read(k)\<close>. A seek may pass the end of the file; a read
  returns the bytes there are, at most \<open>k\<close> of them, and all the rest of the file for a
  negative \<open>k\<close>. With no file object (\<open>None\<close>) the attribute lookup fails.
\<close>

definition seek_cur :: "nat \<Rightarrow> unit act" where
  "seek_cur k r =
     (case trzfile r of
        None \<Rightarrow> (Inl AttributeError, r)
      | Some (c, p) \<Rightarrow> (Inr (), r\<lparr>trzfile := Some (c, p + k)\<rparr>))"

definition read_bytes :: "int \<Rightarrow> byte list act" where
  "read_bytes k r =
     (case trzfile r of
        None \<Rightarrow> (Inl AttributeError, r)
      | Some (c, p) \<Rightarrow>
          (let bs = (if k < 0 then drop p c else take (nat k) (drop p c))
           in (Inr bs, r\<lparr>trzfile := Some (c, p + length bs)\<rparr>)))"

definition upd_ts :: "(Timestep \<Rightarrow> Timestep) \<Rightarrow> unit act" where
  "upd_ts f r = (Inr (), r\<lparr>ts := f (ts r)\<rparr>)"

definition put_array :: "nat \<Rightarrow> ndarray \<Rightarrow> TRZReader \<Rightarrow> TRZReader" where
  "put_array a v r = r\<lparr>heap := (heap r)\<lparr>arrays := (arrays (heap r))(a := v)\<rparr>\<rparr>"

definition write_all :: "nat \<Rightarrow> real list \<Rightarrow> unit act" where
  "write_all a vs r =
     (case assign_all (arrays (heap r) a) vs of
        Inl e \<Rightarrow> (Inl e, r)
      | Inr v \<Rightarrow> (Inr (), put_array a v r))"

definition write_col :: "nat \<Rightarrow> nat \<Rightarrow> real list \<Rightarrow> unit act" where
  "write_col a j vs r =
     (case assign_col (arrays (heap r) a) j vs of
        Inl e \<Rightarrow> (Inl e, r)
      | Inr v \<Rightarrow> (Inr (), put_array a v r))"

text \<open>The lookup of an attribute that may never have been assigned.\<close>

definition attr :: "(Timestep \<Rightarrow> 'a option) \<Rightarrow> 'a act" where
  "attr f r = (case f (ts r) of None \<Rightarrow> (Inl AttributeError, r) | Some v \<Rightarrow> (Inr v, r))"

text \<open>
  Modelled from the spec: the unit conversion of \<^verbatim>\<open>base.Reader\<close>
  (\<^verbatim>\<open>convert_pos_from_native\<close>, \<^verbatim>\<open>convert_velocities_from_native\<close>) is not part of the
  sources at hand. It converts the array it is given in place to the configured unit
  system: every element is multiplied by the factor of the conversion.
\<close>

definition convert_pos_from_native :: "nat \<Rightarrow> unit act" where
  "convert_pos_from_native a r =
     (Inr (), put_array a ((arrays (heap r) a)
        \<lparr>data := map (\<lambda>v. length_factor r * v) (data (arrays (heap r) a))\<rparr>) r)"

definition convert_velocities_from_native :: "nat \<Rightarrow> unit act" where
  "convert_velocities_from_native a r =
     (Inr (), put_array a ((arrays (heap r) a)
        \<lparr>data := map (\<lambda>v. velocity_factor r * v) (data (arrays (heap r) a))\<rparr>) r)"

subsection \<open>\<^verbatim>\<open>_read_next_timestep\<close>\<close>

text \<open>
  The method is called with its default argument everywhere in the module, so \<open>ts\<close> is
  \<^verbatim>\<open>self.ts\<close>. Its body is cut at the comments of the source: the start of the frame
  with the atom count and the time, the box, the pressure, the energies, the
  coordinates, the velocities. In an assignment Python evaluates the right-hand side
  (the read and the unpack) before the target.
\<close>

definition rnt_head :: "int act" where
  "rnt_head =
     bnd (seek_cur 12) (\<lambda>_.
     bnd (read_bytes 4) (\<lambda>b.
     bnd (lift (unpack_i b)) (\<lambda>natoms.
     bnd (read_bytes 8) (\<lambda>b.
     bnd (lift (unpack_d 1 b)) (\<lambda>v.
     bnd (upd_ts (\<lambda>t. t\<lparr>time := Some (v ! 0)\<rparr>)) (\<lambda>_.
     ret natoms))))))"

definition rnt_box :: "unit act" where
  "rnt_box =
     bnd (seek_cur 8) (\<lambda>_.
     bnd (read_bytes 72) (\<lambda>b.
     bnd (lift (unpack_d 9 b)) (\<lambda>vs.
     bnd (\<lambda>r. write_all (unitcell (ts r)) vs r) (\<lambda>_.
     seek_cur 4))))"

definition rnt_pressure :: "unit act" where
  "rnt_pressure =
     bnd (seek_cur 4) (\<lambda>_.
     bnd (read_bytes 8) (\<lambda>b.
     bnd (lift (unpack_d 1 b)) (\<lambda>v.
     bnd (upd_ts (\<lambda>t. t\<lparr>pressure := Some (PyTuple v)\<rparr>)) (\<lambda>_.
     bnd (read_bytes (8 * 6)) (\<lambda>b.
     bnd (lift (unpack_d 6 b)) (\<lambda>vs.
     bnd (attr pressure_tensor) (\<lambda>a.
     bnd (write_all a vs) (\<lambda>_.
     seek_cur 4))))))))"

definition rnt_energy :: "unit act" where
  "rnt_energy =
     bnd (seek_cur 8) (\<lambda>_.
     bnd (read_bytes 8) (\<lambda>b.
     bnd (lift (unpack_d 1 b)) (\<lambda>v.
     bnd (upd_ts (\<lambda>t. t\<lparr>total_energy := Some (PyTuple v)\<rparr>)) (\<lambda>_.
     bnd (read_bytes 8) (\<lambda>b.
     bnd (lift (unpack_d 1 b)) (\<lambda>v.
     bnd (upd_ts (\<lambda>t. t\<lparr>potential_energy := Some (PyTuple v)\<rparr>)) (\<lambda>_.
     bnd (read_bytes 8) (\<lambda>b.
     bnd (lift (unpack_d 1 b)) (\<lambda>v.
     bnd (upd_ts (\<lambda>t. t\<lparr>kinetic_energy := Some (PyTuple v)\<rparr>)) (\<lambda>_.
     bnd (read_bytes 8) (\<lambda>b.
     bnd (lift (unpack_d 1 b)) (\<lambda>v.
     bnd (upd_ts (\<lambda>t. t\<lparr>temperature := Some (PyTuple v)\<rparr>)) (\<lambda>_.
     seek_cur (2 * 8 + 4))))))))))))))"

definition rnt_coords :: "int \<Rightarrow> unit act" where
  "rnt_coords natoms =
     bnd (seek_cur 4) (\<lambda>_.
     bnd (read_bytes (4 * natoms)) (\<lambda>b.
     bnd (lift (unpack_f natoms b)) (\<lambda>vs.
     bnd (\<lambda>r. write_col (pos (ts r)) 0 vs r) (\<lambda>_.
     bnd (seek_cur 8) (\<lambda>_.
     bnd (read_bytes (4 * natoms)) (\<lambda>b.
     bnd (lift (unpack_f natoms b)) (\<lambda>vs.
     bnd (\<lambda>r. write_col (pos (ts r)) 1 vs r) (\<lambda>_.
     bnd (seek_cur 8) (\<lambda>_.
     bnd (read_bytes (4 * natoms)) (\<lambda>b.
     bnd (lift (unpack_f natoms b)) (\<lambda>vs.
     bnd (\<lambda>r. write_col (pos (ts r)) 2 vs r) (\<lambda>_.
     seek_cur 4))))))))))))"

definition rnt_velocities :: "int \<Rightarrow> unit act" where
  "rnt_velocities natoms =
     bnd (seek_cur 4) (\<lambda>_.
     bnd (read_bytes (4 * natoms)) (\<lambda>b.
     bnd (lift (unpack_f natoms b)) (\<lambda>vs.
     bnd (attr velocities) (\<lambda>a.
     bnd (write_col a 0 vs) (\<lambda>_.
     bnd (seek_cur 8) (\<lambda>_.
     bnd (read_bytes (4 * natoms)) (\<lambda>b.
     bnd (lift (unpack_f natoms b)) (\<lambda>vs.
     bnd (attr velocities) (\<lambda>a.
     bnd (write_col a 1 vs) (\<lambda>_.
     bnd (seek_cur 8) (\<lambda>_.
     bnd (read_bytes (4 * natoms)) (\<lambda>b.
     bnd (lift (unpack_f natoms b)) (\<lambda>vs.
     bnd (attr velocities) (\<lambda>a.
     bnd (write_col a 2 vs) (\<lambda>_.
     seek_cur 4)))))))))))))))"

definition rnt_convert :: "unit act" where
  "rnt_convert r =
     (if convert_units r then
        bnd (convert_pos_from_native (pos (ts r))) (\<lambda>_.
        bnd (\<lambda>r. convert_pos_from_native (unitcell (ts r)) r) (\<lambda>_.
        bnd (attr velocities) convert_velocities_from_native)) r
      else (Inr (), r))"

definition get_ts :: "Timestep act" where
  "get_ts r = (Inr (ts r), r)"

definition read_next_timestep :: "Timestep act" where
  "read_next_timestep =
     except_struct (
       bnd rnt_head (\<lambda>natoms.
       bnd rnt_box (\<lambda>_.
       bnd rnt_pressure (\<lambda>_.
       bnd rnt_energy (\<lambda>_.
       bnd (rnt_coords natoms) (\<lambda>_.
       bnd (rnt_velocities natoms) (\<lambda>_.
       bnd (upd_ts (\<lambda>t. t\<lparr>frame := frame t + 1\<rparr>)) (\<lambda>_.
       bnd rnt_convert (\<lambda>_.
       get_ts)))))))))"

text \<open>
  Modelled from the spec: \<^verbatim>\<open>next\<close> belongs to \<^verbatim>\<open>base.Reader\<close>, which is not part of
  the sources at hand. The comment at \<^verbatim>\<open>_read_next_timestep\<close> says that \<^verbatim>\<open>self.next()\<close>
  calls it, and the spec's \<^verbatim>\<open>rewind\<close> calls \<^verbatim>\<open>advance()\<close> once.
\<close>

definition next_frame :: "Timestep act" where
  "next_frame = read_next_timestep"

subsection \<open>Opening, closing and rewinding\<close>

definition read_trz_header :: "unit act" where
  "read_trz_header = seek_cur 100"

definition close :: "unit act" where
  "close r = (Inr (), r\<lparr>trzfile := None\<rparr>)"

definition open_trajectory :: "unit act" where
  "open_trajectory r =
     (if trzfile r \<noteq> None then (Inl (IOError (Some EALREADY)), r)
      else case path_content r of
             None \<Rightarrow> (Inl (IOError (Some ENOENT)), r)
           | Some c \<Rightarrow>
               (Inr (), r\<lparr>trzfile := Some (c, 0),
                          ts := (ts r)\<lparr>status := Some 1, frame := 0, step := Some 0,
                                       time := Some 0\<rparr>\<rparr>))"

definition reopen :: "unit act" where
  "reopen = bnd close (\<lambda>_. bnd open_trajectory (\<lambda>_. read_trz_header))"

definition rewind :: "unit act" where
  "rewind = bnd reopen (\<lambda>_. bnd next_frame (\<lambda>_. ret ()))"

text \<open>
  \<^verbatim>\<open>TRZReader.__init__\<close>: the file at the path, the \<^verbatim>\<open>numatoms\<close> keyword, the
  conversion flag with the two factors, and the store. The builtin \<^verbatim>\<open>open\<close> raises
  IOError for a path that does not exist.
\<close>

definition TRZReader_init ::
  "byte list option \<Rightarrow> int option \<Rightarrow> bool \<Rightarrow> real \<Rightarrow> real \<Rightarrow> store \<Rightarrow> pyerror + TRZReader" where
  "TRZReader_init fc natoms conv lf vf s =
     (case natoms of
        None \<Rightarrow> Inl (ValueError ''TRZReader requires the numatoms keyword'')
      | Some n \<Rightarrow>
          (case fc of
             None \<Rightarrow> Inl (IOError (Some ENOENT))
           | Some c \<Rightarrow>
               (case Timestep_init (ArgInt n) s of
                  (Inl e, _) \<Rightarrow> Inl e
                | (Inr t, s') \<Rightarrow>
                    (case read_next_timestep
                            \<lparr>path_content = fc, trzfile = Some (c, 100),
                             convert_units = conv, length_factor = lf,
                             velocity_factor = vf, numatoms_cache = Some (NInt n),
                             numframes_cache = None, delta_cache = None, ts = t,
                             heap = s'\<rparr> of
                       (Inl e, _) \<Rightarrow> Inl e
                     | (Inr _, r) \<Rightarrow> Inr r))))"

section \<open>What every method preserves\<close>

text \<open>
  \<open>pres R m\<close>: the method \<open>m\<close>, run in any state, leaves a state in the relation \<open>R\<close> to
  it, whether it returns or raises. \<open>file_le\<close>: the reader holds the same file object,
  not moved backwards, or still none.
\<close>

definition pres :: "(TRZReader \<Rightarrow> TRZReader \<Rightarrow> bool) \<Rightarrow> 'a act \<Rightarrow> bool" where
  "pres R m = (\<forall>r. R r (snd (m r)))"

definition file_le :: "TRZReader \<Rightarrow> TRZReader \<Rightarrow> bool" where
  "file_le r r' =
     (case trzfile r of
        None \<Rightarrow> trzfile r' = None
      | Some (c, p) \<Rightarrow>
          (case trzfile r' of None \<Rightarrow> False | Some (c', p') \<Rightarrow> c' = c \<and> p \<le> p'))"

lemma pres_bnd:
  assumes tr: "\<And>a b c. R a b \<Longrightarrow> R b c \<Longrightarrow> R a c"
    and m: "pres R m" and f: "\<And>x. pres R (f x)"
  shows "pres R (bnd m f)"
  unfolding pres_def
proof
  fix r :: TRZReader
  obtain res r1 where mr: "m r = (res, r1)" by (cases "m r")
  from m have l1: "R r r1"
    unfolding pres_def using mr by (metis snd_conv)
  show "R r (snd (bnd m f r))"
  proof (cases res)
    case (Inl e)
    with mr l1 show ?thesis by (simp add: bnd_def)
  next
    case (Inr x)
    from f [of x] have "R r1 (snd (f x r1))"
      unfolding pres_def by blast
    with l1 have "R r (snd (f x r1))"
      by (rule tr)
    with mr Inr show ?thesis by (simp add: bnd_def)
  qed
qed

lemma pres_except: "pres R m \<Longrightarrow> pres R (except_struct m)"
  unfolding pres_def
proof
  fix r :: TRZReader
  assume a: "\<forall>r. R r (snd (m r))"
  have "snd (except_struct m r) = snd (m r)"
    by (simp add: except_struct_def split: prod.splits sum.splits pyerror.splits)
  with a show "R r (snd (except_struct m r))" by simp
qed

lemma pres_ret: "(\<And>r. R r r) \<Longrightarrow> pres R (ret x)"
  by (simp add: pres_def ret_def)

lemma pres_lift: "(\<And>r. R r r) \<Longrightarrow> pres R (lift v)"
  by (simp add: pres_def lift_def)

lemma pres_get_ts: "(\<And>r. R r r) \<Longrightarrow> pres R get_ts"
  by (simp add: pres_def get_ts_def)

lemma pres_attr: "(\<And>r. R r r) \<Longrightarrow> pres R (attr f)"
  by (simp add: pres_def attr_def split: option.splits)

subsection \<open>The file object\<close>

lemma file_le_refl: "file_le r r"
  by (simp add: file_le_def split: option.splits)

lemma file_le_trans: "file_le a b \<Longrightarrow> file_le b c \<Longrightarrow> file_le a c"
  by (auto simp: file_le_def split: option.splits)

lemmas file_bnd = pres_bnd [of file_le, OF file_le_trans]

lemma file_seek: "pres file_le (seek_cur k)"
  by (simp add: pres_def seek_cur_def file_le_def split: option.splits)

lemma file_read: "pres file_le (read_bytes k)"
  by (simp add: pres_def read_bytes_def file_le_def Let_def split: option.splits)

lemma file_upd_ts: "pres file_le (upd_ts f)"
  by (simp add: pres_def upd_ts_def file_le_def split: option.splits)

lemma trzfile_put_array [simp]: "trzfile (put_array a v r) = trzfile r"
  by (simp add: put_array_def)

lemma file_write_all: "pres file_le (\<lambda>r. write_all (g r) vs r)"
  by (simp add: pres_def write_all_def file_le_def split: sum.splits option.splits)

lemma file_write_col: "pres file_le (\<lambda>r. write_col (g r) j vs r)"
  by (simp add: pres_def write_col_def file_le_def split: sum.splits option.splits)

lemma file_write_all': "pres file_le (write_all a vs)"
  by (rule file_write_all)

lemma file_write_col': "pres file_le (write_col a j vs)"
  by (rule file_write_col)

lemma file_conv_pos: "pres file_le (\<lambda>r. convert_pos_from_native (g r) r)"
  by (simp add: pres_def convert_pos_from_native_def file_le_def split: option.splits)

lemma file_conv_pos': "pres file_le (convert_pos_from_native a)"
  by (rule file_conv_pos)

lemma file_conv_vel: "pres file_le (convert_velocities_from_native a)"
  by (simp add: pres_def convert_velocities_from_native_def file_le_def split: option.splits)

lemmas file_basic =
  file_seek file_read file_upd_ts file_write_all file_write_col file_write_all'
  file_write_col' file_conv_pos file_conv_pos' file_conv_vel
  pres_ret [of file_le, OF file_le_refl] pres_lift [of file_le, OF file_le_refl]
  pres_get_ts [of file_le, OF file_le_refl] pres_attr [of file_le, OF file_le_refl]

lemma file_convert: "pres file_le rnt_convert"
  unfolding pres_def
proof
  fix r :: TRZReader
  have k: "pres file_le (bnd (convert_pos_from_native (pos (ts r))) (\<lambda>_.
        bnd (\<lambda>r. convert_pos_from_native (unitcell (ts r)) r) (\<lambda>_.
        bnd (attr velocities) convert_velocities_from_native)))"
    by (intro file_bnd file_basic)
  show "file_le r (snd (rnt_convert r))"
    using k by (simp add: rnt_convert_def pres_def file_le_refl)
qed

text \<open>The method after the atom count and the time have been read.\<close>

definition rnt_tail :: "int \<Rightarrow> Timestep act" where
  "rnt_tail natoms =
       bnd rnt_box (\<lambda>_.
       bnd rnt_pressure (\<lambda>_.
       bnd rnt_energy (\<lambda>_.
       bnd (rnt_coords natoms) (\<lambda>_.
       bnd (rnt_velocities natoms) (\<lambda>_.
       bnd (upd_ts (\<lambda>t. t\<lparr>frame := frame t + 1\<rparr>)) (\<lambda>_.
       bnd rnt_convert (\<lambda>_.
       get_ts)))))))"

lemma read_next_timestep_eq: "read_next_timestep = except_struct (bnd rnt_head rnt_tail)"
  unfolding read_next_timestep_def rnt_tail_def by (rule refl)

lemma file_tail: "pres file_le (rnt_tail n)"
  unfolding rnt_tail_def rnt_box_def rnt_pressure_def rnt_energy_def rnt_coords_def
    rnt_velocities_def
  by (intro file_bnd file_basic file_convert)

lemma bnd_Inr:
  assumes "bnd m f r = (Inr y, r')"
  obtains x r1 where "m r = (Inr x, r1)" and "f x r1 = (Inr y, r')"
  using assms by (auto simp: bnd_def split: prod.splits sum.splits)

lemma seek_cur_Inr:
  assumes "seek_cur k r = (Inr u, r')"
  obtains c p where "trzfile r = Some (c, p)" and "r' = r\<lparr>trzfile := Some (c, p + k)\<rparr>"
  using assms by (auto simp: seek_cur_def split: option.splits)

lemma read_bytes_Inr:
  assumes "read_bytes (int k) r = (Inr b, r')" and "trzfile r = Some (c, p)"
  shows "b = take k (drop p c) \<and> r' = r\<lparr>trzfile := Some (c, p + length b)\<rparr>"
  using assms by (auto simp: read_bytes_def Let_def split: option.splits)

lemma lift_Inr: "lift v r = (Inr x, r') \<Longrightarrow> v = Inr x \<and> r' = r"
  by (simp add: lift_def)

lemma unpack_i_Inr: "unpack_i b = Inr n \<Longrightarrow> length b = 4"
  by (simp add: unpack_i_def split: if_splits)

lemma unpack_d_Inr: "unpack_d k b = Inr v \<Longrightarrow> length b = 8 * k"
  by (simp add: unpack_d_def split: if_splits)

lemma rnt_head_Inr:
  assumes "rnt_head r = (Inr n, r')"
  shows "\<exists>c p. trzfile r = Some (c, p) \<and> trzfile r' = Some (c, p + 24) \<and> p + 24 \<le> length c"
proof -
  from assms obtain u1 r1 b1 r2 r3 b2 r4 v r5 u2 r6 where
    s1: "seek_cur 12 r = (Inr u1, r1)" and
    s2: "read_bytes 4 r1 = (Inr b1, r2)" and
    s3: "lift (unpack_i b1) r2 = (Inr n, r3)" and
    s4: "read_bytes 8 r3 = (Inr b2, r4)" and
    s5: "lift (unpack_d 1 b2) r4 = (Inr v, r5)" and
    s6: "upd_ts (\<lambda>t. t\<lparr>time := Some (v ! 0)\<rparr>) r5 = (Inr u2, r6)" and
    s7: "ret n r6 = (Inr n, r')"
    unfolding rnt_head_def
    by (elim bnd_Inr) (auto simp: ret_def)
  from s1 obtain c p where f0: "trzfile r = Some (c, p)"
    and r1: "r1 = r\<lparr>trzfile := Some (c, p + 12)\<rparr>"
    by (elim seek_cur_Inr)
  from r1 have f1: "trzfile r1 = Some (c, p + 12)" by simp
  from read_bytes_Inr [of 4 r1 b1 r2 c "p + 12"] s2 f1
  have b1: "b1 = take 4 (drop (p + 12) c)"
    and r2: "r2 = r1\<lparr>trzfile := Some (c, p + 12 + length b1)\<rparr>"
    by auto
  from s3 have l1: "length b1 = 4" and r3: "r3 = r2"
    by (auto dest!: lift_Inr unpack_i_Inr)
  from r2 r3 l1 have f3: "trzfile r3 = Some (c, p + 16)" by simp
  from read_bytes_Inr [of 8 r3 b2 r4 c "p + 16"] s4 f3
  have b2: "b2 = take 8 (drop (p + 16) c)"
    and r4: "r4 = r3\<lparr>trzfile := Some (c, p + 16 + length b2)\<rparr>"
    by auto
  from s5 have l2: "length b2 = 8" and r5: "r5 = r4"
    by (auto dest!: lift_Inr unpack_d_Inr)
  from s6 have r6: "trzfile r6 = trzfile r5" by (auto simp: upd_ts_def)
  from s7 have r7: "r' = r6" by (simp add: ret_def)
  from l2 b2 have "p + 24 \<le> length c" by (simp split: if_splits)
  moreover from r7 r6 r5 r4 l2 have "trzfile r' = Some (c, p + 24)" by simp
  ultimately show ?thesis using f0 by simp
qed

lemma read_next_timestep_advances:
  assumes "read_next_timestep r = (Inr t, r')"
  shows "\<exists>c p p'. trzfile r = Some (c, p) \<and> trzfile r' = Some (c, p') \<and> p + 24 \<le> p'
           \<and> p + 24 \<le> length c"
proof -
  from assms obtain n r1 where h: "rnt_head r = (Inr n, r1)" and t: "rnt_tail n r1 = (Inr t, r')"
    by (auto simp: read_next_timestep_eq except_struct_def bnd_def
        split: prod.splits sum.splits pyerror.splits)
  from rnt_head_Inr [OF h] obtain c p where
    f: "trzfile r = Some (c, p)" "trzfile r1 = Some (c, p + 24)" "p + 24 \<le> length c" by blast
  from file_tail [of n] t have "file_le r1 r'"
    by (metis pres_def snd_conv)
  with f show ?thesis by (auto simp: file_le_def split: option.splits)
qed

definition remaining :: "TRZReader \<Rightarrow> nat" where
  "remaining r = (case trzfile r of None \<Rightarrow> 0 | Some (c, p) \<Rightarrow> length c - p)"

lemma read_next_timestep_remaining:
  "(Inr t, r') = read_next_timestep r \<Longrightarrow> remaining r' < remaining r"
  by (drule sym, drule read_next_timestep_advances) (auto simp: remaining_def)

subsection \<open>The loops over the frames\<close>

text \<open>
  The loop of \<^verbatim>\<open>_read_trz_numframes\<close> and the loop of \<^verbatim>\<open>__iter__\<close>. Both end at the
  first frame that cannot be read: a read that succeeds moves the file object forward,
  and the file is finite. \<open>iter_loop\<close> returns the \<^verbatim>\<open>Timestep\<close> yielded at each step as
  it is when it is yielded, the exception that reaches the consumer (\<open>None\<close> when the
  generator ends with \<^verbatim>\<open>StopIteration\<close>), and the last state.
\<close>

function read_trz_numframes_loop :: "int \<Rightarrow> int act" where
  "read_trz_numframes_loop framecounter r =
     (case read_next_timestep r of
        (Inr _, r') \<Rightarrow> read_trz_numframes_loop (framecounter + 1) r'
      | (Inl e, r') \<Rightarrow>
          if is_IOError e then bnd rewind (\<lambda>_. ret framecounter) r' else (Inl e, r'))"
  by pat_completeness auto
termination
  by (relation "measure (\<lambda>(n, r). remaining r)") (auto simp: read_next_timestep_remaining)

function iter_loop :: "TRZReader \<Rightarrow> Timestep list \<times> pyerror option \<times> TRZReader" where
  "iter_loop r =
     (case read_next_timestep r of
        (Inr t, r') \<Rightarrow> (case iter_loop r' of (ys, e, rf) \<Rightarrow> (t # ys, e, rf))
      | (Inl e, r') \<Rightarrow>
          if is_IOError e then
            (case rewind r' of
               (Inl e', rf) \<Rightarrow> ([], Some e', rf)
             | (Inr _, rf) \<Rightarrow> ([], None, rf))
          else ([], Some e, r'))"
  by pat_completeness auto
termination
  by (relation "measure remaining") (auto simp: read_next_timestep_remaining)

subsection \<open>\<^verbatim>\<open>numframes\<close>, \<^verbatim>\<open>numatoms\<close>, \<^verbatim>\<open>delta\<close>, \<^verbatim>\<open>__iter__\<close>\<close>

definition read_trz_numframes :: "int act" where
  "read_trz_numframes = bnd reopen (\<lambda>_. read_trz_numframes_loop 0)"

definition numframes :: "int act" where
  "numframes r =
     (case numframes_cache r of
        Some n \<Rightarrow> (Inr n, r)
      | None \<Rightarrow>
          (case read_trz_numframes r of
             (Inl e, r') \<Rightarrow> if is_IOError e then (Inr 0, r') else (Inl e, r')
           | (Inr n, r') \<Rightarrow> (Inr n, r'\<lparr>numframes_cache := Some n\<rparr>)))"

text \<open>
  \<^verbatim>\<open>_read_trz_natoms\<close> keeps the tuple that \<^verbatim>\<open>struct.unpack\<close> returns; the reopening
  is in the \<^verbatim>\<open>else\<close> branch of its \<^verbatim>\<open>try\<close>.
\<close>

definition read_trz_natoms :: "natoms_val act" where
  "read_trz_natoms r =
     (case except_struct
             (bnd (seek_cur 12) (\<lambda>_. bnd (read_bytes 4) (\<lambda>b. lift (unpack_i b)))) r of
        (Inl e, r') \<Rightarrow> (Inl e, r')
      | (Inr n, r') \<Rightarrow> bnd reopen (\<lambda>_. ret (NTuple [n])) r')"

definition numatoms_reader :: "natoms_val act" where
  "numatoms_reader r =
     (case numatoms_cache r of
        Some n \<Rightarrow> (Inr n, r)
      | None \<Rightarrow>
          (case bnd reopen (\<lambda>_. read_trz_natoms) r of
             (Inl e, r') \<Rightarrow> if is_IOError e then (Inr (NInt 0), r') else (Inl e, r')
           | (Inr n, r') \<Rightarrow> (Inr n, r'\<lparr>numatoms_cache := Some n\<rparr>)))"

text \<open>
  \<^verbatim>\<open>delta\<close>: the body of the \<^verbatim>\<open>try\<close>, then the \<^verbatim>\<open>finally\<close> clause on every path. An
  exception of \<^verbatim>\<open>self.rewind()\<close> in the \<^verbatim>\<open>finally\<close> clause replaces the pending return
  value or the pending exception.
\<close>

definition delta_body :: "real act" where
  "delta_body =
     bnd (attr time) (\<lambda>t0.
     bnd next_frame (\<lambda>_.
     bnd (attr time) (\<lambda>t1.
     bnd (\<lambda>r. (Inr (), r\<lparr>delta_cache := Some (t1 - t0)\<rparr>)) (\<lambda>_.
     ret (t1 - t0)))))"

definition delta :: "real act" where
  "delta r =
     (case delta_cache r of
        Some d \<Rightarrow> (Inr d, r)
      | None \<Rightarrow>
          (case delta_body r of
             (Inr d, r1) \<Rightarrow>
               (case rewind r1 of
                  (Inl e', r2) \<Rightarrow> (Inl e', r2)
                | (Inr _, r2) \<Rightarrow> (Inr d, r2))
           | (Inl e, r1) \<Rightarrow>
               (case rewind r1 of
                  (Inl e', r2) \<Rightarrow> (Inl e', r2)
                | (Inr _, r2) \<Rightarrow> if is_IOError e then (Inr 0, r2) else (Inl e, r2))))"

text \<open>\<^verbatim>\<open>__iter__\<close>, consumed to its end.\<close>

definition iter :: "TRZReader \<Rightarrow> Timestep list \<times> pyerror option \<times> TRZReader" where
  "iter r =
     (case reopen (r\<lparr>ts := (ts r)\<lparr>frame := 0\<rparr>\<rparr>) of
        (Inl e, r') \<Rightarrow> ([], Some e, r')
      | (Inr _, r') \<Rightarrow> iter_loop r')"

section \<open>Trajectories\<close>

text \<open>
  One frame record of \<open>n\<close> atoms has \<open>280 + 24 * n\<close> bytes: ten Fortran records, each
  between two markers of 4 bytes. The atom count is at the offset 12 of the frame and
  the time at the offset 16.
\<close>

definition frame_size :: "nat \<Rightarrow> nat" where
  "frame_size n = 280 + 24 * n"

definition frame_at :: "nat \<Rightarrow> byte list \<Rightarrow> nat \<Rightarrow> bool" where
  "frame_at n c p =
     (p + frame_size n \<le> length c \<and> int32_val (take 4 (drop (p + 12) c)) = int n)"

definition frame_start :: "nat \<Rightarrow> nat \<Rightarrow> nat" where
  "frame_start n i = 100 + i * frame_size n"

definition frame_time :: "nat \<Rightarrow> byte list \<Rightarrow> nat \<Rightarrow> real" where
  "frame_time n c i = double_val (take 8 (drop (frame_start n i + 16) c))"

text \<open>
  A valid trajectory of \<open>k\<close> frames of \<open>n\<close> atoms: the header of 100 bytes, then \<open>k\<close>
  frame records that declare \<open>n\<close> atoms, and nothing else.
\<close>

definition valid_trz :: "nat \<Rightarrow> nat \<Rightarrow> byte list \<Rightarrow> bool" where
  "valid_trz n k c =
     (length c = frame_start n k \<and> list_all (\<lambda>i. frame_at n c (frame_start n i)) [0..<k])"

text \<open>
  The arrays of the reader's \<^verbatim>\<open>Timestep\<close> as the constructor makes them for \<open>n\<close> atoms.
\<close>

definition shapes_ok :: "nat \<Rightarrow> TRZReader \<Rightarrow> bool" where
  "shapes_ok n r =
     (shape (arrays (heap r) (unitcell (ts r))) = [9] \<and>
      shape (arrays (heap r) (pos (ts r))) = [n, 3] \<and>
      (case velocities (ts r) of
         None \<Rightarrow> False | Some v \<Rightarrow> shape (arrays (heap r) v) = [n, 3]) \<and>
      (case pressure_tensor (ts r) of
         None \<Rightarrow> False | Some a \<Rightarrow> shape (arrays (heap r) a) = [6]))"

text \<open>
  The reader stands on the frame \<open>i\<close> (counted from 1) of the file \<open>c\<close>: the file at the
  path is \<open>c\<close>, the file object has read \<open>i\<close> frames of it, and the \<^verbatim>\<open>Timestep\<close> carries
  the index and the time of that frame.
\<close>

definition on_frame :: "nat \<Rightarrow> byte list \<Rightarrow> nat \<Rightarrow> TRZReader \<Rightarrow> bool" where
  "on_frame n c i r =
     (path_content r = Some c \<and> trzfile r = Some (c, frame_start n i) \<and>
      frame (ts r) = int i \<and> time (ts r) = Some (frame_time n c (i - 1)) \<and> shapes_ok n r)"


section \<open>Invariants of the reader\<close>

text \<open>
  \<open>fpset t\<close> is the set of the arrays of a \<^verbatim>\<open>Timestep\<close>. \<open>lay_eq r r'\<close>: from \<open>r\<close> to \<open>r'\<close>
  the \<^verbatim>\<open>Timestep\<close> of the reader kept its arrays and its atom count, every array of the
  store kept its shape and its number of elements, every array that is not one of the
  \<^verbatim>\<open>Timestep\<close> kept its elements, and the path, the conversion and the caches are the
  same. \<open>lay X\<close> is \<open>lay_eq\<close> for the states whose \<^verbatim>\<open>Timestep\<close> has the arrays \<open>X\<close>.
  \<open>keeps_addrs f\<close>: the update \<open>f\<close> of a \<^verbatim>\<open>Timestep\<close> assigns none of its arrays.
\<close>

definition fpset :: "Timestep \<Rightarrow> nat set" where
  "fpset t = {unitcell t, pos t} \<union> set_option (velocities t) \<union> set_option (pressure_tensor t)"

definition lay_eq :: "TRZReader \<Rightarrow> TRZReader \<Rightarrow> bool" where
  "lay_eq r r' =
     (unitcell (ts r') = unitcell (ts r) \<and> pos (ts r') = pos (ts r) \<and>
      velocities (ts r') = velocities (ts r) \<and>
      pressure_tensor (ts r') = pressure_tensor (ts r) \<and>
      numatoms (ts r') = numatoms (ts r) \<and>
      (\<forall>a. shape (arrays (heap r') a) = shape (arrays (heap r) a)) \<and>
      (\<forall>a. length (data (arrays (heap r') a)) = length (data (arrays (heap r) a))) \<and>
      (\<forall>a. a \<notin> fpset (ts r) \<longrightarrow> arrays (heap r') a = arrays (heap r) a) \<and>
      fresh (heap r') = fresh (heap r) \<and>
      path_content r' = path_content r \<and> convert_units r' = convert_units r \<and>
      length_factor r' = length_factor r \<and> velocity_factor r' = velocity_factor r \<and>
      numatoms_cache r' = numatoms_cache r \<and> numframes_cache r' = numframes_cache r \<and>
      delta_cache r' = delta_cache r)"

definition lay :: "nat set \<Rightarrow> TRZReader \<Rightarrow> TRZReader \<Rightarrow> bool" where
  "lay X r r' = (X \<subseteq> fpset (ts r) \<longrightarrow> lay_eq r r')"

definition keeps_addrs :: "(Timestep \<Rightarrow> Timestep) \<Rightarrow> bool" where
  "keeps_addrs f =
     (\<forall>t. unitcell (f t) = unitcell t \<and> pos (f t) = pos t \<and> velocities (f t) = velocities t \<and>
          pressure_tensor (f t) = pressure_tensor t \<and> numatoms (f t) = numatoms t)"

definition same_path :: "TRZReader \<Rightarrow> TRZReader \<Rightarrow> bool" where
  "same_path r r' = (path_content r' = path_content r)"

text \<open>
  A \<^verbatim>\<open>Timestep\<close> is allocated in a store when its arrays are arrays of the store.
\<close>

definition allocated :: "store \<Rightarrow> Timestep \<Rightarrow> bool" where
  "allocated s t = (\<forall>a \<in> fpset t. a < fresh s)"


section \<open>Example states\<close>

text \<open>
  An empty store, the \<^verbatim>\<open>Timestep\<close> that \<^verbatim>\<open>Timestep(1)\<close> makes in it, and a reader of one
  atom that holds no file object, for the file \<open>fc\<close> at its path.
\<close>

definition store0 :: store where
  "store0 = \<lparr>arrays = (\<lambda>_. \<lparr>shape = [0], data = []\<rparr>), fresh = 0\<rparr>"

definition ts1 :: Timestep where
  "ts1 = \<lparr>frame = 0, numatoms = 1, time = Some 0, pressure = Some (PyFloat 0),
          pressure_tensor = Some 0, total_energy = Some (PyFloat 0),
          potential_energy = Some (PyFloat 0), kinetic_energy = Some (PyFloat 0),
          temperature = Some (PyFloat 0), unitcell = 3, pos = 1,
          velocities = Some 2, status = None, step = None\<rparr>"

definition store1 :: store where
  "store1 = snd (Timestep_init (ArgInt 1) store0)"

definition reader1 :: "byte list option \<Rightarrow> TRZReader" where
  "reader1 fc = \<lparr>path_content = fc, trzfile = None, convert_units = False,
                 length_factor = 10, velocity_factor = 10, numatoms_cache = Some (NInt 1),
                 numframes_cache = None, delta_cache = None, ts = ts1, heap = store1\<rparr>"

text \<open>
  A frame record of one atom with the given 8 bytes of time, everything else zero, and a
  trajectory of two such frames at the times 0.0 and 1.0.
\<close>

definition frame1 :: "byte list \<Rightarrow> byte list" where
  "frame1 t = replicate 12 0 @ [1, 0, 0, 0] @ t @ replicate 280 0"

definition trz2 :: "byte list" where
  "trz2 = replicate 100 0 @ frame1 [0, 0, 0, 0, 0, 0, 0, 0] @ frame1 [0, 0, 0, 0, 0, 0, 0xF0, 0x3F]"




section \<open>Lemmas on the reader\<close>

subsection \<open>The layout of the snapshot\<close>

lemma lay_eq_refl: "lay_eq r r"
  by (simp add: lay_eq_def)

lemma lay_eq_fpset: "lay_eq r r' \<Longrightarrow> fpset (ts r') = fpset (ts r)"
  by (simp add: lay_eq_def fpset_def)

lemma lay_eq_trans: "lay_eq a b \<Longrightarrow> lay_eq b c \<Longrightarrow> lay_eq a c"
  using lay_eq_fpset [of a b] by (simp add: lay_eq_def)

lemma lay_refl: "lay X r r"
  by (simp add: lay_def lay_eq_refl)

lemma lay_trans: "lay X a b \<Longrightarrow> lay X b c \<Longrightarrow> lay X a c"
  using lay_eq_fpset [of a b] lay_eq_trans [of a b c] by (auto simp: lay_def)

lemmas lay_bnd = pres_bnd [of "lay X", OF lay_trans] for X

lemma lay_seek: "pres (lay X) (seek_cur k)"
  by (simp add: pres_def seek_cur_def lay_def lay_eq_def split: option.splits)

lemma lay_read: "pres (lay X) (read_bytes k)"
  by (simp add: pres_def read_bytes_def lay_def lay_eq_def Let_def split: option.splits)

lemma lay_upd_ts: "keeps_addrs f \<Longrightarrow> pres (lay X) (upd_ts f)"
  by (simp add: pres_def upd_ts_def lay_def lay_eq_def keeps_addrs_def fpset_def)

lemma keeps_addrs_simps:
  "keeps_addrs (\<lambda>t. t\<lparr>time := x\<rparr>)"
  "keeps_addrs (\<lambda>t. t\<lparr>pressure := y\<rparr>)"
  "keeps_addrs (\<lambda>t. t\<lparr>total_energy := y\<rparr>)"
  "keeps_addrs (\<lambda>t. t\<lparr>potential_energy := y\<rparr>)"
  "keeps_addrs (\<lambda>t. t\<lparr>kinetic_energy := y\<rparr>)"
  "keeps_addrs (\<lambda>t. t\<lparr>temperature := y\<rparr>)"
  "keeps_addrs (\<lambda>t. t\<lparr>frame := g t\<rparr>)"
  by (simp_all add: keeps_addrs_def)

lemma shape_assign_all:
  "assign_all a vs = Inr v \<Longrightarrow> shape v = shape a \<and> length (data v) = length (data a)"
  by (auto simp: assign_all_def split: if_splits)

lemma shape_assign_col:
  "assign_col a j vs = Inr v \<Longrightarrow> shape v = shape a \<and> length (data v) = length (data a)"
  by (auto simp: assign_col_def Let_def split: if_splits)

lemma lay_eq_put_array:
  assumes "a \<in> fpset (ts r)" and "shape v = shape (arrays (heap r) a)"
    and "length (data v) = length (data (arrays (heap r) a))"
  shows "lay_eq r (put_array a v r)"
  using assms by (auto simp: lay_eq_def put_array_def)

lemma lay_write_all: "a \<in> X \<Longrightarrow> pres (lay X) (write_all a vs)"
  by (auto simp: pres_def write_all_def lay_def lay_eq_refl split: sum.splits
      dest!: shape_assign_all intro!: lay_eq_put_array)

lemma lay_write_col: "a \<in> X \<Longrightarrow> pres (lay X) (write_col a j vs)"
  by (auto simp: pres_def write_col_def lay_def lay_eq_refl split: sum.splits
      dest!: shape_assign_col intro!: lay_eq_put_array)

lemma lay_write_unitcell: "pres (lay X) (\<lambda>r. write_all (unitcell (ts r)) vs r)"
  by (auto simp: pres_def write_all_def lay_def lay_eq_refl fpset_def split: sum.splits
      dest!: shape_assign_all intro!: lay_eq_put_array)

lemma lay_write_pos: "pres (lay X) (\<lambda>r. write_col (pos (ts r)) j vs r)"
  by (auto simp: pres_def write_col_def lay_def lay_eq_refl fpset_def split: sum.splits
      dest!: shape_assign_col intro!: lay_eq_put_array)

lemma lay_attr_velocities:
  assumes "\<And>a. pres (lay (insert a X)) (g a)"
  shows "pres (lay X) (bnd (attr velocities) g)"
  unfolding pres_def
proof
  fix r :: TRZReader
  show "lay X r (snd (bnd (attr velocities) g r))"
  proof (cases "velocities (ts r)")
    case None
    then show ?thesis by (simp add: bnd_def attr_def lay_refl)
  next
    case (Some a)
    then have "a \<in> fpset (ts r)" by (simp add: fpset_def)
    moreover from assms [of a] have "lay (insert a X) r (snd (g a r))"
      by (simp add: pres_def)
    ultimately show ?thesis using Some by (simp add: bnd_def attr_def lay_def)
  qed
qed

lemma lay_attr_pressure_tensor:
  assumes "\<And>a. pres (lay (insert a X)) (g a)"
  shows "pres (lay X) (bnd (attr pressure_tensor) g)"
  unfolding pres_def
proof
  fix r :: TRZReader
  show "lay X r (snd (bnd (attr pressure_tensor) g r))"
  proof (cases "pressure_tensor (ts r)")
    case None
    then show ?thesis by (simp add: bnd_def attr_def lay_refl)
  next
    case (Some a)
    then have "a \<in> fpset (ts r)" by (simp add: fpset_def)
    moreover from assms [of a] have "lay (insert a X) r (snd (g a r))"
      by (simp add: pres_def)
    ultimately show ?thesis using Some by (simp add: bnd_def attr_def lay_def)
  qed
qed

lemma lay_conv_pos: "a \<in> X \<Longrightarrow> pres (lay X) (convert_pos_from_native a)"
  by (auto simp: pres_def convert_pos_from_native_def lay_def intro!: lay_eq_put_array)

lemma lay_conv_unitcell: "pres (lay X) (\<lambda>r. convert_pos_from_native (unitcell (ts r)) r)"
  by (auto simp: pres_def convert_pos_from_native_def lay_def fpset_def
      intro!: lay_eq_put_array)

lemma lay_conv_vel: "a \<in> X \<Longrightarrow> pres (lay X) (convert_velocities_from_native a)"
  by (auto simp: pres_def convert_velocities_from_native_def lay_def intro!: lay_eq_put_array)

lemmas lay_basic =
  lay_seek lay_read lay_write_unitcell lay_write_pos
  pres_ret [of "lay X", OF lay_refl] pres_lift [of "lay X", OF lay_refl]
  pres_get_ts [of "lay X", OF lay_refl]
  lay_upd_ts [OF keeps_addrs_simps(1)] lay_upd_ts [OF keeps_addrs_simps(2)]
  lay_upd_ts [OF keeps_addrs_simps(3)] lay_upd_ts [OF keeps_addrs_simps(4)]
  lay_upd_ts [OF keeps_addrs_simps(5)] lay_upd_ts [OF keeps_addrs_simps(6)]
  lay_upd_ts [OF keeps_addrs_simps(7)] for X

lemma lay_head: "pres (lay X) rnt_head"
  unfolding rnt_head_def by (intro lay_bnd lay_basic)

lemma lay_box: "pres (lay X) rnt_box"
  unfolding rnt_box_def by (intro lay_bnd lay_basic)

lemma lay_pressure: "pres (lay X) rnt_pressure"
  unfolding rnt_pressure_def
  by (intro lay_attr_pressure_tensor lay_bnd lay_basic lay_write_all insertI1)

lemma lay_energy: "pres (lay X) rnt_energy"
  unfolding rnt_energy_def by (intro lay_bnd lay_basic)

lemma lay_coords: "pres (lay X) (rnt_coords n)"
  unfolding rnt_coords_def by (intro lay_bnd lay_basic)

lemma lay_velocities: "pres (lay X) (rnt_velocities n)"
  unfolding rnt_velocities_def
  by (intro lay_attr_velocities lay_bnd lay_basic lay_write_col insertI1 insertI2)

lemma lay_convert: "pres (lay X) rnt_convert"
  unfolding pres_def
proof
  fix r :: TRZReader
  have k: "pres (lay (insert (pos (ts r)) X))
       (bnd (convert_pos_from_native (pos (ts r))) (\<lambda>_.
        bnd (\<lambda>r. convert_pos_from_native (unitcell (ts r)) r) (\<lambda>_.
        bnd (attr velocities) convert_velocities_from_native)))"
    by (intro lay_attr_velocities lay_bnd lay_conv_pos lay_conv_unitcell lay_conv_vel) simp_all
  have "pos (ts r) \<in> fpset (ts r)" by (simp add: fpset_def)
  with k show "lay X r (snd (rnt_convert r))"
    by (simp add: rnt_convert_def pres_def lay_def lay_eq_refl)
qed

lemma lay_tail: "pres (lay X) (rnt_tail n)"
  unfolding rnt_tail_def
  by (intro lay_bnd lay_basic lay_box lay_pressure lay_energy lay_coords lay_velocities
      lay_convert)

lemma lay_read_next_timestep: "pres (lay X) read_next_timestep"
  unfolding read_next_timestep_eq
  by (intro pres_except lay_bnd lay_head lay_tail)

lemma read_next_timestep_lay_eq: "lay_eq r (snd (read_next_timestep r))"
  using lay_read_next_timestep [of "{}"] by (simp add: pres_def lay_def)

subsection \<open>Reading one frame record\<close>

lemma length_chunks [simp]: "length (chunks k bs) = length bs div k"
  by (simp add: chunks_def)

lemma chunks_single: "length bs = k \<Longrightarrow> 0 < k \<Longrightarrow> chunks k bs = [bs]"
  by (simp add: chunks_def)

lemma shapes_ok_lay_eq: "lay_eq r r' \<Longrightarrow> shapes_ok n r \<Longrightarrow> shapes_ok n r'"
  by (auto simp: lay_eq_def shapes_ok_def split: option.splits)

lemma bnd_ok: "fst (m r) = Inr x \<Longrightarrow> bnd m f r = f x (snd (m r))"
  by (cases "m r") (simp add: bnd_def)

lemma rnt_head_ok:
  assumes "trzfile r = Some (c, p)" and "p + 24 \<le> length c"
  shows "fst (rnt_head r) = Inr (int32_val (take 4 (drop (p + 12) c)))"
    and "trzfile (snd (rnt_head r)) = Some (c, p + 24)"
    and "frame (ts (snd (rnt_head r))) = frame (ts r)"
    and "time (ts (snd (rnt_head r))) = Some (double_val (take 8 (drop (p + 16) c)))"
  using assms
  by (simp_all add: rnt_head_def bnd_def seek_cur_def read_bytes_def lift_def unpack_i_def
      unpack_d_def upd_ts_def ret_def Let_def chunks_single add.commute)

lemma rnt_box_ok:
  assumes "trzfile r = Some (c, p)" and "p + 80 \<le> length c"
    and "shape (arrays (heap r) (unitcell (ts r))) = [9]"
  shows "fst (rnt_box r) = Inr ()"
    and "trzfile (snd (rnt_box r)) = Some (c, p + 84)"
    and "frame (ts (snd (rnt_box r))) = frame (ts r)"
    and "time (ts (snd (rnt_box r))) = time (ts r)"
  using assms
  by (simp_all add: rnt_box_def bnd_def seek_cur_def read_bytes_def lift_def
      unpack_d_def write_all_def assign_all_def put_array_def Let_def)

lemma rnt_pressure_ok:
  assumes "trzfile r = Some (c, p)" and "p + 60 \<le> length c"
    and "pressure_tensor (ts r) = Some a" and "shape (arrays (heap r) a) = [6]"
  shows "fst (rnt_pressure r) = Inr ()"
    and "trzfile (snd (rnt_pressure r)) = Some (c, p + 64)"
    and "frame (ts (snd (rnt_pressure r))) = frame (ts r)"
    and "time (ts (snd (rnt_pressure r))) = time (ts r)"
  using assms
  by (simp_all add: rnt_pressure_def bnd_def seek_cur_def read_bytes_def lift_def
      unpack_d_def write_all_def assign_all_def put_array_def upd_ts_def attr_def Let_def)

lemma rnt_energy_ok:
  assumes "trzfile r = Some (c, p)" and "p + 40 \<le> length c"
  shows "fst (rnt_energy r) = Inr ()"
    and "trzfile (snd (rnt_energy r)) = Some (c, p + 60)"
    and "frame (ts (snd (rnt_energy r))) = frame (ts r)"
    and "time (ts (snd (rnt_energy r))) = time (ts r)"
  using assms
  by (simp_all add: rnt_energy_def bnd_def seek_cur_def read_bytes_def lift_def
      unpack_d_def upd_ts_def Let_def)

lemma read_bytes_4n: "read_bytes (4 * int n) = read_bytes (int (4 * n))"
  by simp

lemma lay_eq_put_array2:
  assumes "lay_eq r r1" and "a \<in> fpset (ts r)" and "shape v = shape (arrays (heap r1) a)"
    and "length (data v) = length (data (arrays (heap r1) a))"
  shows "lay_eq r (put_array a v r1)"
proof -
  from assms(1,2) have "a \<in> fpset (ts r1)" by (simp add: lay_eq_fpset)
  from lay_eq_put_array [OF this assms(3,4)] assms(1) show ?thesis
    by (rule lay_eq_trans [rotated])
qed

lemma assign_col_ok:
  assumes "shape a = [n, 3]" and "length vs = n" and "j < 3"
  shows "\<exists>v. assign_col a j vs = Inr v \<and> shape v = [n, 3] \<and>
           length (data v) = length (data a)"
  using assms by (simp add: assign_col_def Let_def)

lemma write_col_ok:
  assumes "shape (arrays (heap r) a) = [n, 3]" and "length vs = n" and "j < 3"
  shows "\<exists>v. write_col a j vs r = (Inr (), put_array a v r) \<and> shape v = [n, 3] \<and>
           length (data v) = length (data (arrays (heap r) a))"
proof -
  from assign_col_ok [OF assms] obtain v where
    "assign_col (arrays (heap r) a) j vs = Inr v" "shape v = [n, 3]"
    "length (data v) = length (data (arrays (heap r) a))" by blast
  then show ?thesis by (auto simp: write_col_def)
qed

lemma axis_pos:
  assumes "trzfile r = Some (c, p)" and "p + 4 * n \<le> length c"
    and "shape (arrays (heap r) (pos (ts r))) = [n, 3]" and "j < 3"
  shows "\<exists>r'. bnd (read_bytes (4 * int n)) (\<lambda>b. bnd (lift (unpack_f (int n) b)) (\<lambda>vs.
              bnd (\<lambda>r. write_col (pos (ts r)) j vs r) f)) r = f () r' \<and>
           trzfile r' = Some (c, p + 4 * n) \<and> ts r' = ts r \<and> lay_eq r r'"
proof -
  let ?b = "take (4 * n) (drop p c)"
  let ?r1 = "r\<lparr>trzfile := Some (c, p + 4 * n)\<rparr>"
  let ?vs = "map single_val (chunks 4 ?b)"
  from assms(2) have lb: "length ?b = 4 * n" by simp
  have rd: "read_bytes (4 * int n) r = (Inr ?b, ?r1)"
    using assms(1) lb by (simp add: read_bytes_def Let_def nat_mult_distrib)
  have up: "unpack_f (int n) ?b = Inr ?vs"
    using lb by (simp add: unpack_f_def)
  have lv: "length ?vs = n" using lb by simp
  from write_col_ok [of ?r1 "pos (ts r)" n ?vs j] assms(3,4) lv
  obtain v where w: "write_col (pos (ts r)) j ?vs ?r1 = (Inr (), put_array (pos (ts r)) v ?r1)"
    and sv: "shape v = [n, 3]"
    and dv: "length (data v) = length (data (arrays (heap r) (pos (ts r))))"
    by auto
  let ?r2 = "put_array (pos (ts r)) v ?r1"
  have "bnd (read_bytes (4 * int n)) (\<lambda>b. bnd (lift (unpack_f (int n) b)) (\<lambda>vs.
              bnd (\<lambda>r. write_col (pos (ts r)) j vs r) f)) r = f () ?r2"
    using rd up w by (simp add: bnd_def lift_def)
  moreover have "trzfile ?r2 = Some (c, p + 4 * n)" by simp
  moreover have "ts ?r2 = ts r" by (simp add: put_array_def)
  moreover have "lay_eq r ?r2"
    using sv dv assms(3) by (auto simp: lay_eq_def put_array_def fpset_def)
  ultimately show ?thesis by blast
qed

lemma bnd_seek_cur:
  "trzfile r = Some (c, p) \<Longrightarrow> bnd (seek_cur k) f r = f () (r\<lparr>trzfile := Some (c, p + k)\<rparr>)"
  by (simp add: bnd_def seek_cur_def)

lemma lay_eq_trzfile: "lay_eq r (r\<lparr>trzfile := x\<rparr>)"
  by (simp add: lay_eq_def)

lemma rnt_coords_ok:
  assumes f: "trzfile r = Some (c, p)" and l: "p + 20 + 12 * n \<le> length c"
    and s: "shape (arrays (heap r) (pos (ts r))) = [n, 3]"
  shows "fst (rnt_coords (int n) r) = Inr ()"
    and "trzfile (snd (rnt_coords (int n) r)) = Some (c, p + 24 + 12 * n)"
    and "frame (ts (snd (rnt_coords (int n) r))) = frame (ts r)"
    and "time (ts (snd (rnt_coords (int n) r))) = time (ts r)"
proof -
  let ?f2 = "\<lambda>_::unit. seek_cur 4"
  let ?A2 = "\<lambda>_::unit. bnd (read_bytes (4 * int n)) (\<lambda>b. bnd (lift (unpack_f (int n) b)) (\<lambda>vs.
              bnd (\<lambda>r. write_col (pos (ts r)) 2 vs r) ?f2))"
  let ?f1 = "\<lambda>_::unit. bnd (seek_cur 8) ?A2"
  let ?A1 = "\<lambda>_::unit. bnd (read_bytes (4 * int n)) (\<lambda>b. bnd (lift (unpack_f (int n) b)) (\<lambda>vs.
              bnd (\<lambda>r. write_col (pos (ts r)) 1 vs r) ?f1))"
  let ?f0 = "\<lambda>_::unit. bnd (seek_cur 8) ?A1"
  let ?A0 = "\<lambda>_::unit. bnd (read_bytes (4 * int n)) (\<lambda>b. bnd (lift (unpack_f (int n) b)) (\<lambda>vs.
              bnd (\<lambda>r. write_col (pos (ts r)) 0 vs r) ?f0))"
  have e: "rnt_coords (int n) r = bnd (seek_cur 4) ?A0 r"
    by (simp add: rnt_coords_def)
  let ?ra = "r\<lparr>trzfile := Some (c, p + 4)\<rparr>"
  have ea: "bnd (seek_cur 4) ?A0 r = ?A0 () ?ra"
    using f by (rule bnd_seek_cur)
  from axis_pos [of ?ra c "p + 4" n 0 ?f0] l s
  obtain r1 where e1: "?A0 () ?ra = ?f0 () r1"
    and f1: "trzfile r1 = Some (c, p + 4 + 4 * n)"
    and t1: "ts r1 = ts r" and l1: "lay_eq ?ra r1"
    by auto
  let ?rb = "r1\<lparr>trzfile := Some (c, p + 4 + 4 * n + 8)\<rparr>"
  have eb: "?f0 () r1 = ?A1 () ?rb"
    using f1 by (rule bnd_seek_cur)
  have sb: "shape (arrays (heap ?rb) (pos (ts ?rb))) = [n, 3]"
    using l1 t1 s by (simp add: lay_eq_def)
  from axis_pos [of ?rb c "p + 4 + 4 * n + 8" n 1 ?f1] l sb
  obtain r2 where e2: "?A1 () ?rb = ?f1 () r2"
    and f2: "trzfile r2 = Some (c, p + 4 + 4 * n + 8 + 4 * n)"
    and t2: "ts r2 = ts r1" and l2: "lay_eq ?rb r2"
    by auto
  let ?rc = "r2\<lparr>trzfile := Some (c, p + 4 + 4 * n + 8 + 4 * n + 8)\<rparr>"
  have ec: "?f1 () r2 = ?A2 () ?rc"
    using f2 by (rule bnd_seek_cur)
  have sc: "shape (arrays (heap ?rc) (pos (ts ?rc))) = [n, 3]"
    using l2 t2 sb by (simp add: lay_eq_def)
  from axis_pos [of ?rc c "p + 4 + 4 * n + 8 + 4 * n + 8" n 2 ?f2] l sc
  obtain r3 where e3: "?A2 () ?rc = ?f2 () r3"
    and f3: "trzfile r3 = Some (c, p + 4 + 4 * n + 8 + 4 * n + 8 + 4 * n)"
    and t3: "ts r3 = ts r2" and l3: "lay_eq ?rc r3"
    by auto
  have "rnt_coords (int n) r = seek_cur 4 r3"
    using e ea e1 eb e2 ec e3 by simp
  with f3 t3 t2 t1 show "fst (rnt_coords (int n) r) = Inr ()"
    and "trzfile (snd (rnt_coords (int n) r)) = Some (c, p + 24 + 12 * n)"
    and "frame (ts (snd (rnt_coords (int n) r))) = frame (ts r)"
    and "time (ts (snd (rnt_coords (int n) r))) = time (ts r)"
    by (simp_all add: seek_cur_def)
qed

lemma axis_vel:
  assumes "trzfile r = Some (c, p)" and "p + 4 * n \<le> length c"
    and "velocities (ts r) = Some a"
    and "shape (arrays (heap r) a) = [n, 3]" and "j < 3"
  shows "\<exists>r'. bnd (read_bytes (4 * int n)) (\<lambda>b. bnd (lift (unpack_f (int n) b)) (\<lambda>vs.
              bnd (attr velocities) (\<lambda>a. bnd (write_col a j vs) f))) r = f () r' \<and>
           trzfile r' = Some (c, p + 4 * n) \<and> ts r' = ts r \<and> lay_eq r r'"
proof -
  let ?b = "take (4 * n) (drop p c)"
  let ?r1 = "r\<lparr>trzfile := Some (c, p + 4 * n)\<rparr>"
  let ?vs = "map single_val (chunks 4 ?b)"
  from assms(2) have lb: "length ?b = 4 * n" by simp
  have rd: "read_bytes (4 * int n) r = (Inr ?b, ?r1)"
    using assms(1) lb by (simp add: read_bytes_def Let_def nat_mult_distrib)
  have up: "unpack_f (int n) ?b = Inr ?vs"
    using lb by (simp add: unpack_f_def)
  have lv: "length ?vs = n" using lb by simp
  have at: "attr velocities ?r1 = (Inr a, ?r1)"
    using assms(3) by (simp add: attr_def)
  from write_col_ok [of ?r1 a n ?vs j] assms(4,5) lv
  obtain v where w: "write_col a j ?vs ?r1 = (Inr (), put_array a v ?r1)"
    and sv: "shape v = [n, 3]"
    and dv: "length (data v) = length (data (arrays (heap r) a))"
    by auto
  let ?r2 = "put_array a v ?r1"
  have "bnd (read_bytes (4 * int n)) (\<lambda>b. bnd (lift (unpack_f (int n) b)) (\<lambda>vs.
              bnd (attr velocities) (\<lambda>a. bnd (write_col a j vs) f))) r = f () ?r2"
    using rd up at w by (simp add: bnd_def lift_def)
  moreover have "trzfile ?r2 = Some (c, p + 4 * n)" by simp
  moreover have "ts ?r2 = ts r" by (simp add: put_array_def)
  moreover have "lay_eq r ?r2"
    using sv dv assms(3,4) by (auto simp: lay_eq_def put_array_def fpset_def)
  ultimately show ?thesis by blast
qed

lemma rnt_velocities_ok:
  assumes f: "trzfile r = Some (c, p)" and l: "p + 20 + 12 * n \<le> length c"
    and va: "velocities (ts r) = Some a" and s: "shape (arrays (heap r) a) = [n, 3]"
  shows "fst (rnt_velocities (int n) r) = Inr ()"
    and "trzfile (snd (rnt_velocities (int n) r)) = Some (c, p + 24 + 12 * n)"
    and "frame (ts (snd (rnt_velocities (int n) r))) = frame (ts r)"
    and "time (ts (snd (rnt_velocities (int n) r))) = time (ts r)"
proof -
  let ?f2 = "\<lambda>_::unit. seek_cur 4"
  let ?A2 = "\<lambda>_::unit. bnd (read_bytes (4 * int n)) (\<lambda>b. bnd (lift (unpack_f (int n) b)) (\<lambda>vs.
              bnd (attr velocities) (\<lambda>a. bnd (write_col a 2 vs) ?f2)))"
  let ?f1 = "\<lambda>_::unit. bnd (seek_cur 8) ?A2"
  let ?A1 = "\<lambda>_::unit. bnd (read_bytes (4 * int n)) (\<lambda>b. bnd (lift (unpack_f (int n) b)) (\<lambda>vs.
              bnd (attr velocities) (\<lambda>a. bnd (write_col a 1 vs) ?f1)))"
  let ?f0 = "\<lambda>_::unit. bnd (seek_cur 8) ?A1"
  let ?A0 = "\<lambda>_::unit. bnd (read_bytes (4 * int n)) (\<lambda>b. bnd (lift (unpack_f (int n) b)) (\<lambda>vs.
              bnd (attr velocities) (\<lambda>a. bnd (write_col a 0 vs) ?f0)))"
  have e: "rnt_velocities (int n) r = bnd (seek_cur 4) ?A0 r"
    by (simp add: rnt_velocities_def)
  let ?ra = "r\<lparr>trzfile := Some (c, p + 4)\<rparr>"
  have ea: "bnd (seek_cur 4) ?A0 r = ?A0 () ?ra"
    using f by (rule bnd_seek_cur)
  from axis_vel [of ?ra c "p + 4" n a 0 ?f0] l s va
  obtain r1 where e1: "?A0 () ?ra = ?f0 () r1"
    and f1: "trzfile r1 = Some (c, p + 4 + 4 * n)"
    and t1: "ts r1 = ts r" and l1: "lay_eq ?ra r1"
    by auto
  let ?rb = "r1\<lparr>trzfile := Some (c, p + 4 + 4 * n + 8)\<rparr>"
  have eb: "?f0 () r1 = ?A1 () ?rb"
    using f1 by (rule bnd_seek_cur)
  have sb: "velocities (ts ?rb) = Some a" "shape (arrays (heap ?rb) a) = [n, 3]"
    using l1 t1 s va by (simp_all add: lay_eq_def)
  from axis_vel [of ?rb c "p + 4 + 4 * n + 8" n a 1 ?f1] l sb
  obtain r2 where e2: "?A1 () ?rb = ?f1 () r2"
    and f2: "trzfile r2 = Some (c, p + 4 + 4 * n + 8 + 4 * n)"
    and t2: "ts r2 = ts r1" and l2: "lay_eq ?rb r2"
    by auto
  let ?rc = "r2\<lparr>trzfile := Some (c, p + 4 + 4 * n + 8 + 4 * n + 8)\<rparr>"
  have ec: "?f1 () r2 = ?A2 () ?rc"
    using f2 by (rule bnd_seek_cur)
  have sc: "velocities (ts ?rc) = Some a" "shape (arrays (heap ?rc) a) = [n, 3]"
    using l2 t2 sb by (simp_all add: lay_eq_def)
  from axis_vel [of ?rc c "p + 4 + 4 * n + 8 + 4 * n + 8" n a 2 ?f2] l sc
  obtain r3 where e3: "?A2 () ?rc = ?f2 () r3"
    and f3: "trzfile r3 = Some (c, p + 4 + 4 * n + 8 + 4 * n + 8 + 4 * n)"
    and t3: "ts r3 = ts r2" and l3: "lay_eq ?rc r3"
    by auto
  have "rnt_velocities (int n) r = seek_cur 4 r3"
    using e ea e1 eb e2 ec e3 by simp
  with f3 t3 t2 t1 show "fst (rnt_velocities (int n) r) = Inr ()"
    and "trzfile (snd (rnt_velocities (int n) r)) = Some (c, p + 24 + 12 * n)"
    and "frame (ts (snd (rnt_velocities (int n) r))) = frame (ts r)"
    and "time (ts (snd (rnt_velocities (int n) r))) = time (ts r)"
    by (simp_all add: seek_cur_def)
qed

lemma rnt_convert_ok:
  assumes "velocities (ts r) = Some v"
  shows "fst (rnt_convert r) = Inr ()"
    and "trzfile (snd (rnt_convert r)) = trzfile r"
    and "frame (ts (snd (rnt_convert r))) = frame (ts r)"
    and "time (ts (snd (rnt_convert r))) = time (ts r)"
  using assms
  by (simp_all add: rnt_convert_def bnd_def convert_pos_from_native_def
      convert_velocities_from_native_def put_array_def attr_def)

lemma pres_lay_eq: "pres (lay {}) m \<Longrightarrow> lay_eq r (snd (m r))"
  by (simp add: pres_def lay_def)

lemma except_struct_ok: "m r = (Inr x, r') \<Longrightarrow> except_struct m r = (Inr x, r')"
  by (simp add: except_struct_def)

lemma read_frame_ok:
  assumes s: "shapes_ok n r" and f: "trzfile r = Some (c, p)" and fr: "frame_at n c p"
  shows "\<exists>r'. read_next_timestep r = (Inr (ts r'), r') \<and>
           trzfile r' = Some (c, p + frame_size n) \<and> frame (ts r') = frame (ts r) + 1 \<and>
           time (ts r') = Some (double_val (take 8 (drop (p + 16) c))) \<and>
           lay_eq r r' \<and> shapes_ok n r'"
proof -
  from fr have len: "p + 280 + 24 * n \<le> length c"
    and na: "int32_val (take 4 (drop (p + 12) c)) = int n"
    by (simp_all add: frame_at_def frame_size_def)
  define r1 where "r1 = snd (rnt_head r)"
  define r2 where "r2 = snd (rnt_box r1)"
  define r3 where "r3 = snd (rnt_pressure r2)"
  define r4 where "r4 = snd (rnt_energy r3)"
  define r5 where "r5 = snd (rnt_coords (int n) r4)"
  define r6 where "r6 = snd (rnt_velocities (int n) r5)"
  define r7 where "r7 = r6\<lparr>ts := (ts r6)\<lparr>frame := frame (ts r6) + 1\<rparr>\<rparr>"
  define r8 where "r8 = snd (rnt_convert r7)"
  have h: "fst (rnt_head r) = Inr (int n)" "trzfile r1 = Some (c, p + 24)"
    "frame (ts r1) = frame (ts r)"
    "time (ts r1) = Some (double_val (take 8 (drop (p + 16) c)))"
    using rnt_head_ok [of r c p] f len na by (simp_all add: r1_def)
  have l1: "lay_eq r r1" unfolding r1_def by (rule pres_lay_eq [OF lay_head])
  have s1: "shapes_ok n r1" using l1 s by (rule shapes_ok_lay_eq)
  from s1 have u1: "shape (arrays (heap r1) (unitcell (ts r1))) = [9]"
    by (simp add: shapes_ok_def)
  have b: "fst (rnt_box r1) = Inr ()" "trzfile r2 = Some (c, p + 108)"
    "frame (ts r2) = frame (ts r1)" "time (ts r2) = time (ts r1)"
    using rnt_box_ok [of r1 c "p + 24"] h(2) len u1 by (simp_all add: r2_def)
  have l2: "lay_eq r1 r2" unfolding r2_def by (rule pres_lay_eq [OF lay_box])
  have s2: "shapes_ok n r2" using l2 s1 by (rule shapes_ok_lay_eq)
  from s2 obtain a where a2: "pressure_tensor (ts r2) = Some a"
    "shape (arrays (heap r2) a) = [6]"
    by (auto simp: shapes_ok_def split: option.splits)
  have pr: "fst (rnt_pressure r2) = Inr ()" "trzfile r3 = Some (c, p + 172)"
    "frame (ts r3) = frame (ts r2)" "time (ts r3) = time (ts r2)"
    using rnt_pressure_ok [of r2 c "p + 108" a] b(2) len a2 by (simp_all add: r3_def)
  have l3: "lay_eq r2 r3" unfolding r3_def by (rule pres_lay_eq [OF lay_pressure])
  have s3: "shapes_ok n r3" using l3 s2 by (rule shapes_ok_lay_eq)
  have en: "fst (rnt_energy r3) = Inr ()" "trzfile r4 = Some (c, p + 232)"
    "frame (ts r4) = frame (ts r3)" "time (ts r4) = time (ts r3)"
    using rnt_energy_ok [of r3 c "p + 172"] pr(2) len by (simp_all add: r4_def)
  have l4: "lay_eq r3 r4" unfolding r4_def by (rule pres_lay_eq [OF lay_energy])
  have s4: "shapes_ok n r4" using l4 s3 by (rule shapes_ok_lay_eq)
  from s4 have p4: "shape (arrays (heap r4) (pos (ts r4))) = [n, 3]"
    by (simp add: shapes_ok_def)
  have co: "fst (rnt_coords (int n) r4) = Inr ()" "trzfile r5 = Some (c, p + 256 + 12 * n)"
    "frame (ts r5) = frame (ts r4)" "time (ts r5) = time (ts r4)"
    using rnt_coords_ok [of r4 c "p + 232" n] en(2) len p4 by (simp_all add: r5_def)
  have l5: "lay_eq r4 r5" unfolding r5_def by (rule pres_lay_eq [OF lay_coords])
  have s5: "shapes_ok n r5" using l5 s4 by (rule shapes_ok_lay_eq)
  from s5 obtain v where v5: "velocities (ts r5) = Some v"
    "shape (arrays (heap r5) v) = [n, 3]"
    by (auto simp: shapes_ok_def split: option.splits)
  have ve: "fst (rnt_velocities (int n) r5) = Inr ()"
    "trzfile r6 = Some (c, p + 280 + 24 * n)"
    "frame (ts r6) = frame (ts r5)" "time (ts r6) = time (ts r5)"
    using rnt_velocities_ok [of r5 c "p + 256 + 12 * n" n v] co(2) len v5
    by (simp_all add: r6_def)
  have l6: "lay_eq r5 r6" unfolding r6_def by (rule pres_lay_eq [OF lay_velocities])
  have l7: "lay_eq r6 r7" by (simp add: r7_def lay_eq_def fpset_def)
  have s7: "shapes_ok n r7"
    using l7 shapes_ok_lay_eq [OF l6 s5] by (rule shapes_ok_lay_eq)
  from s7 obtain v' where v7: "velocities (ts r7) = Some v'"
    by (auto simp: shapes_ok_def split: option.splits)
  have cv: "fst (rnt_convert r7) = Inr ()" "trzfile r8 = trzfile r7"
    "frame (ts r8) = frame (ts r7)" "time (ts r8) = time (ts r7)"
    using rnt_convert_ok [OF v7] by (simp_all add: r8_def)
  have l8: "lay_eq r7 r8" unfolding r8_def by (rule pres_lay_eq [OF lay_convert])
  have s8: "shapes_ok n r8" using l8 s7 by (rule shapes_ok_lay_eq)
  have up: "upd_ts (\<lambda>t. t\<lparr>frame := frame t + 1\<rparr>) r6 = (Inr (), r7)"
    by (simp add: upd_ts_def r7_def)
  have e2: "\<And>g. bnd rnt_box g r1 = g () r2"
    using bnd_ok [of rnt_box r1 "()"] b(1) by (simp add: r2_def)
  have e3: "\<And>g. bnd rnt_pressure g r2 = g () r3"
    using bnd_ok [of rnt_pressure r2 "()"] pr(1) by (simp add: r3_def)
  have e4: "\<And>g. bnd rnt_energy g r3 = g () r4"
    using bnd_ok [of rnt_energy r3 "()"] en(1) by (simp add: r4_def)
  have e5: "\<And>g. bnd (rnt_coords (int n)) g r4 = g () r5"
    using bnd_ok [of "rnt_coords (int n)" r4 "()"] co(1) by (simp add: r5_def)
  have e6: "\<And>g. bnd (rnt_velocities (int n)) g r5 = g () r6"
    using bnd_ok [of "rnt_velocities (int n)" r5 "()"] ve(1) by (simp add: r6_def)
  have e7: "\<And>g. bnd (upd_ts (\<lambda>t. t\<lparr>frame := frame t + 1\<rparr>)) g r6 = g () r7"
    using bnd_ok [of "upd_ts (\<lambda>t. t\<lparr>frame := frame t + 1\<rparr>)" r6 "()"] up by simp
  have e8: "\<And>g. bnd rnt_convert g r7 = g () r8"
    using bnd_ok [of rnt_convert r7 "()"] cv(1) by (simp add: r8_def)
  have tl: "rnt_tail (int n) r1 = (Inr (ts r8), r8)"
    unfolding rnt_tail_def by (simp only: e2 e3 e4 e5 e6 e7 e8 get_ts_def)
  have "bnd rnt_head rnt_tail r = (Inr (ts r8), r8)"
    using bnd_ok [of rnt_head r "int n" rnt_tail] h(1) tl by (simp add: r1_def)
  then have rn: "read_next_timestep r = (Inr (ts r8), r8)"
    unfolding read_next_timestep_eq by (rule except_struct_ok)
  have le: "lay_eq r r8"
    by (rule lay_eq_trans [OF l1 lay_eq_trans [OF l2 lay_eq_trans [OF l3 lay_eq_trans [OF l4
          lay_eq_trans [OF l5 lay_eq_trans [OF l6 lay_eq_trans [OF l7 l8]]]]]]])
  have "trzfile r8 = Some (c, p + frame_size n)"
    using cv(2) ve(2) by (simp add: r7_def frame_size_def)
  moreover have "frame (ts r8) = frame (ts r) + 1"
    using cv(3) ve(3) co(3) en(3) pr(3) b(3) h(3) by (simp add: r7_def)
  moreover have "time (ts r8) = Some (double_val (take 8 (drop (p + 16) c)))"
    using cv(4) ve(4) co(4) en(4) pr(4) b(4) h(4) by (simp add: r7_def)
  ultimately show ?thesis using rn le s8 by blast
qed

subsection \<open>The end of the file, reopening and rewinding\<close>

lemma is_IOError_simps [simp]:
  "is_IOError (IOError x)" "\<not> is_IOError StructError" "\<not> is_IOError (ValueError w)"
  "\<not> is_IOError AttributeError" "\<not> is_IOError IndexError"
  by (simp_all add: is_IOError_def)

lemma rnt_head_eof:
  assumes "trzfile r = Some (c, p)" and "length c < p + 24"
  shows "fst (rnt_head r) = Inl StructError"
  using assms
  by (auto simp: rnt_head_def bnd_def seek_cur_def read_bytes_def lift_def unpack_i_def
      unpack_d_def Let_def)

lemma read_eof:
  assumes "trzfile r = Some (c, p)" and "length c < p + 24"
  shows "fst (read_next_timestep r) = Inl (IOError None)"
proof -
  from rnt_head_eof [OF assms] obtain r1 where "rnt_head r = (Inl StructError, r1)"
    by (cases "rnt_head r") auto
  then show ?thesis
    by (simp add: read_next_timestep_eq except_struct_def bnd_def)
qed

lemma reopen_ok:
  assumes "path_content r = Some c"
  shows "reopen r = (Inr (), r\<lparr>trzfile := Some (c, 100),
           ts := (ts r)\<lparr>status := Some 1, frame := 0, step := Some 0, time := Some 0\<rparr>\<rparr>)"
  using assms
  by (simp add: reopen_def bnd_def close_def open_trajectory_def read_trz_header_def
      seek_cur_def)

lemma reopen_missing:
  assumes "path_content r = None"
  shows "reopen r = (Inl (IOError (Some ENOENT)), r\<lparr>trzfile := None\<rparr>)"
  using assms by (simp add: reopen_def bnd_def close_def open_trajectory_def)

lemma frame_start_simps [simp]:
  "frame_start n 0 = 100" "frame_start n (Suc i) = frame_start n i + frame_size n"
  by (simp_all add: frame_start_def)

lemma rewind_ok:
  assumes pc: "path_content r = Some c" and s: "shapes_ok n r" and fr: "frame_at n c 100"
  shows "\<exists>r'. rewind r = (Inr (), r') \<and> on_frame n c 1 r' \<and> lay_eq r r'"
proof -
  let ?r0 = "r\<lparr>trzfile := Some (c, 100),
           ts := (ts r)\<lparr>status := Some 1, frame := 0, step := Some 0, time := Some 0\<rparr>\<rparr>"
  have ro: "reopen r = (Inr (), ?r0)" using pc by (rule reopen_ok)
  have l0: "lay_eq r ?r0" by (simp add: lay_eq_def fpset_def)
  have s0: "shapes_ok n ?r0" using l0 s by (rule shapes_ok_lay_eq)
  from read_frame_ok [OF s0, of c 100] fr obtain r' where
    rd: "read_next_timestep ?r0 = (Inr (ts r'), r')"
    and f': "trzfile r' = Some (c, 100 + frame_size n)"
    and fr': "frame (ts r') = frame (ts ?r0) + 1"
    and t': "time (ts r') = Some (double_val (take 8 (drop (100 + 16) c)))"
    and l': "lay_eq ?r0 r'" and s': "shapes_ok n r'"
    by auto
  have "rewind r = (Inr (), r')"
    using ro rd by (simp add: rewind_def bnd_def next_frame_def ret_def)
  moreover have "lay_eq r r'" using l0 l' by (rule lay_eq_trans)
  moreover from this pc have "path_content r' = Some c" by (simp add: lay_eq_def)
  then have "on_frame n c 1 r'"
    using f' fr' t' s' by (simp add: on_frame_def frame_time_def)
  ultimately show ?thesis by blast
qed

lemma valid_trz_frame_at:
  "valid_trz n k c \<Longrightarrow> i < k \<Longrightarrow> frame_at n c (frame_start n i)"
  by (simp add: valid_trz_def list_all_iff)

lemma valid_trz_length: "valid_trz n k c \<Longrightarrow> length c = frame_start n k"
  by (simp add: valid_trz_def)

subsection \<open>The loops on a valid trajectory\<close>

declare iter_loop.simps [simp del] read_trz_numframes_loop.simps [simp del]

lemma read_fail_state:
  assumes "read_next_timestep r = (res, r')"
  shows "lay_eq r r'"
  using read_next_timestep_lay_eq [of r] assms by simp

lemma iter_loop_valid:
  assumes v: "valid_trz n k c" and k: "0 < k"
  shows "i \<le> k \<Longrightarrow> k - i = d \<Longrightarrow> path_content r = Some c \<Longrightarrow> shapes_ok n r \<Longrightarrow>
         trzfile r = Some (c, frame_start n i) \<Longrightarrow> frame (ts r) = int i \<Longrightarrow>
         \<exists>ys rf. iter_loop r = (ys, None, rf) \<and> length ys = d \<and>
           (\<forall>j<d. frame (ys ! j) = int (i + j) + 1) \<and> on_frame n c 1 rf \<and> lay_eq r rf"
proof (induction d arbitrary: i r)
  case 0
  then have ik: "i = k" by simp
  obtain res r1 where rd: "read_next_timestep r = (res, r1)"
    by (cases "read_next_timestep r")
  from read_eof [of r c "frame_start n i"] "0.prems" ik valid_trz_length [OF v] rd
  have res: "res = Inl (IOError None)" by simp
  have l1: "lay_eq r r1" using rd by (rule read_fail_state)
  with "0.prems" have pc1: "path_content r1 = Some c" by (simp add: lay_eq_def)
  have s1: "shapes_ok n r1" using l1 "0.prems"(4) by (rule shapes_ok_lay_eq)
  from valid_trz_frame_at [OF v k] have "frame_at n c 100" by simp
  from rewind_ok [OF pc1 s1 this] obtain rf where
    rw: "rewind r1 = (Inr (), rf)" and on: "on_frame n c 1 rf" and lf: "lay_eq r1 rf"
    by blast
  have "iter_loop r = ([], None, rf)"
    using rd res rw by (subst iter_loop.simps) simp
  with on lay_eq_trans [OF l1 lf] show ?case by simp
next
  case (Suc d)
  then have ik: "i < k" by simp
  from read_frame_ok [OF Suc.prems(4,5) valid_trz_frame_at [OF v ik]] obtain r1 where
    rd: "read_next_timestep r = (Inr (ts r1), r1)"
    and f1: "trzfile r1 = Some (c, frame_start n i + frame_size n)"
    and fr1: "frame (ts r1) = frame (ts r) + 1"
    and l1: "lay_eq r r1" and s1: "shapes_ok n r1"
    by auto
  from l1 Suc.prems have pc1: "path_content r1 = Some c" by (simp add: lay_eq_def)
  have kd: "k - Suc i = d" "Suc i \<le> k" using Suc.prems(2) by simp_all
  have fi: "frame (ts r1) = int (Suc i)" using fr1 Suc.prems(6) by simp
  have fs: "trzfile r1 = Some (c, frame_start n (Suc i))" using f1 by simp
  from Suc.IH [OF kd(2) kd(1) pc1 s1 fs fi] obtain ys rf where
    it: "iter_loop r1 = (ys, None, rf)" and ly: "length ys = d"
    and fy: "\<forall>j<d. frame (ys ! j) = int (Suc i + j) + 1"
    and on: "on_frame n c 1 rf" and lf: "lay_eq r1 rf"
    by auto
  have e: "iter_loop r = (ts r1 # ys, None, rf)"
    using rd it by (subst iter_loop.simps) simp
  have "\<forall>j<Suc d. frame ((ts r1 # ys) ! j) = int (i + j) + 1"
  proof (intro allI impI)
    fix j assume "j < Suc d"
    show "frame ((ts r1 # ys) ! j) = int (i + j) + 1"
    proof (cases j)
      case 0
      with fr1 Suc.prems(6) show ?thesis by simp
    next
      case (Suc j')
      with \<open>j < Suc d\<close> fy show ?thesis by simp
    qed
  qed
  with e ly on lay_eq_trans [OF l1 lf] show ?case by simp
qed

lemma numframes_loop_valid:
  assumes v: "valid_trz n k c" and k: "0 < k"
  shows "i \<le> k \<Longrightarrow> k - i = d \<Longrightarrow> path_content r = Some c \<Longrightarrow> shapes_ok n r \<Longrightarrow>
         trzfile r = Some (c, frame_start n i) \<Longrightarrow>
         \<exists>rf. read_trz_numframes_loop fc r = (Inr (fc + int d), rf) \<and> on_frame n c 1 rf \<and>
           lay_eq r rf"
proof (induction d arbitrary: i r fc)
  case 0
  then have ik: "i = k" by simp
  obtain res r1 where rd: "read_next_timestep r = (res, r1)"
    by (cases "read_next_timestep r")
  from read_eof [of r c "frame_start n i"] "0.prems" ik valid_trz_length [OF v] rd
  have res: "res = Inl (IOError None)" by simp
  have l1: "lay_eq r r1" using rd by (rule read_fail_state)
  with "0.prems" have pc1: "path_content r1 = Some c" by (simp add: lay_eq_def)
  have s1: "shapes_ok n r1" using l1 "0.prems"(4) by (rule shapes_ok_lay_eq)
  from valid_trz_frame_at [OF v k] have "frame_at n c 100" by simp
  from rewind_ok [OF pc1 s1 this] obtain rf where
    rw: "rewind r1 = (Inr (), rf)" and on: "on_frame n c 1 rf" and lf: "lay_eq r1 rf"
    by blast
  have "read_trz_numframes_loop fc r = (Inr fc, rf)"
    using rd res rw by (subst read_trz_numframes_loop.simps) (simp add: bnd_def ret_def)
  with on lay_eq_trans [OF l1 lf] show ?case by simp
next
  case (Suc d)
  then have ik: "i < k" by simp
  from read_frame_ok [OF Suc.prems(4,5) valid_trz_frame_at [OF v ik]] obtain r1 where
    rd: "read_next_timestep r = (Inr (ts r1), r1)"
    and f1: "trzfile r1 = Some (c, frame_start n i + frame_size n)"
    and l1: "lay_eq r r1" and s1: "shapes_ok n r1"
    by auto
  from l1 Suc.prems have pc1: "path_content r1 = Some c" by (simp add: lay_eq_def)
  have kd: "k - Suc i = d" "Suc i \<le> k" using Suc.prems(2) by simp_all
  have fs: "trzfile r1 = Some (c, frame_start n (Suc i))" using f1 by simp
  from Suc.IH [OF kd(2) kd(1) pc1 s1 fs, of "fc + 1"] obtain rf where
    it: "read_trz_numframes_loop (fc + 1) r1 = (Inr (fc + 1 + int d), rf)"
    and on: "on_frame n c 1 rf" and lf: "lay_eq r1 rf"
    by auto
  have "read_trz_numframes_loop fc r = (Inr (fc + int (Suc d)), rf)"
    using rd it by (subst read_trz_numframes_loop.simps) simp
  with on lay_eq_trans [OF l1 lf] show ?case by blast
qed

lemma numframes_valid:
  assumes v: "valid_trz n k c" and k: "0 < k" and pc: "path_content r = Some c"
    and s: "shapes_ok n r" and nc: "numframes_cache r = None"
  shows "\<exists>rf. numframes r = (Inr (int k), rf) \<and> on_frame n c 1 rf \<and>
           numframes_cache rf = Some (int k)"
proof -
  let ?r0 = "r\<lparr>trzfile := Some (c, 100),
           ts := (ts r)\<lparr>status := Some 1, frame := 0, step := Some 0, time := Some 0\<rparr>\<rparr>"
  have ro: "reopen r = (Inr (), ?r0)" using pc by (rule reopen_ok)
  have l0: "lay_eq r ?r0" by (simp add: lay_eq_def fpset_def)
  have s0: "shapes_ok n ?r0" using l0 s by (rule shapes_ok_lay_eq)
  from numframes_loop_valid [OF v k, of 0 k ?r0 0] pc s0 obtain rf where
    lp: "read_trz_numframes_loop 0 ?r0 = (Inr (int k), rf)" and on: "on_frame n c 1 rf"
    by auto
  have "read_trz_numframes r = (Inr (int k), rf)"
    using ro lp by (simp add: read_trz_numframes_def bnd_def)
  then have "numframes r = (Inr (int k), rf\<lparr>numframes_cache := Some (int k)\<rparr>)"
    using nc by (simp add: numframes_def)
  moreover have "on_frame n c 1 (rf\<lparr>numframes_cache := Some (int k)\<rparr>)"
    using on by (auto simp: on_frame_def shapes_ok_def split: option.splits)
  ultimately show ?thesis by simp
qed

lemma iter_valid:
  assumes v: "valid_trz n k c" and k: "0 < k" and pc: "path_content r = Some c"
    and s: "shapes_ok n r"
  shows "\<exists>ys rf. iter r = (ys, None, rf) \<and> length ys = k \<and>
           (\<forall>j<k. frame (ys ! j) = int j + 1) \<and> on_frame n c 1 rf \<and> lay_eq r rf"
proof -
  let ?ra = "r\<lparr>ts := (ts r)\<lparr>frame := 0\<rparr>\<rparr>"
  let ?r0 = "?ra\<lparr>trzfile := Some (c, 100),
           ts := (ts ?ra)\<lparr>status := Some 1, frame := 0, step := Some 0, time := Some 0\<rparr>\<rparr>"
  have ro: "reopen ?ra = (Inr (), ?r0)" using pc by (intro reopen_ok) simp
  have l0: "lay_eq r ?r0" by (simp add: lay_eq_def fpset_def)
  have s0: "shapes_ok n ?r0" using l0 s by (rule shapes_ok_lay_eq)
  from iter_loop_valid [OF v k, of 0 k ?r0] pc s0 obtain ys rf where
    "iter_loop ?r0 = (ys, None, rf)" "length ys = k"
    "\<forall>j<k. frame (ys ! j) = int j + 1" "on_frame n c 1 rf" "lay_eq ?r0 rf"
    by auto
  moreover have "iter r = iter_loop ?r0"
    using ro by (simp add: iter_def)
  ultimately show ?thesis using lay_eq_trans [OF l0] by auto
qed

section \<open>The constructor of \<^verbatim>\<open>Timestep\<close>\<close>

text \<open>
  C10: constructing a \<^verbatim>\<open>Timestep\<close> from an argument that is neither an integer, nor a
  \<^verbatim>\<open>Timestep\<close>, nor a numpy array always fails with the ValueError "Cannot create an
  empty Timestep", and changes nothing. The constructor has one parameter and no default
  for it: \<open>None\<close> is such an argument.
\<close>

theorem Timestep_init_other:
  assumes "\<forall>n. arg \<noteq> ArgInt n" and "\<forall>t. arg \<noteq> ArgTimestep t" and "\<forall>a. arg \<noteq> ArgArray a"
  shows "Timestep_init arg s = (Inl (ValueError ''Cannot create an empty Timestep''), s)"
  using assms by (cases arg) (auto simp: Timestep_init_def)

theorem Timestep_init_other_witness:
  "Timestep_init ArgNone store0 = (Inl (ValueError ''Cannot create an empty Timestep''), store0)
   \<and> Timestep_init (ArgFloat 3) store0
       = (Inl (ValueError ''Cannot create an empty Timestep''), store0)"
  using Timestep_init_other [of ArgNone store0] Timestep_init_other [of "ArgFloat 3" store0]
  by simp

text \<open>
  C5, as stated, fails: the constructor has no test on the sign of the atom count, and
  the atom count 0 gives a \<^verbatim>\<open>Timestep\<close> with empty arrays of shape \<open>(0, 3)\<close>.
\<close>

theorem Timestep_init_zero_atoms:
  "Timestep_init (ArgInt 0) store0 =
     (Inr \<lparr>frame = 0, numatoms = 0, time = Some 0, pressure = Some (PyFloat 0),
           pressure_tensor = Some 0, total_energy = Some (PyFloat 0),
           potential_energy = Some (PyFloat 0), kinetic_energy = Some (PyFloat 0),
           temperature = Some (PyFloat 0), unitcell = 3, pos = 1,
           velocities = Some 2, status = None, step = None\<rparr>,
      snd (Timestep_init (ArgInt 0) store0))
   \<and> arrays (snd (Timestep_init (ArgInt 0) store0)) 1 = \<lparr>shape = [0, 3], data = []\<rparr>
   \<and> arrays (snd (Timestep_init (ArgInt 0) store0)) 2 = \<lparr>shape = [0, 3], data = []\<rparr>"
  by (simp add: Timestep_init_def Timestep_of_int_def alloc_def np_zeros_def store0_def Let_def)

text \<open>
  C5, amended: constructing a \<^verbatim>\<open>Timestep\<close> from an atom count fails with a ValueError
  when the count is a negative integer (numpy refuses the dimension) and when the
  argument is no integer at all (a float, \<open>None\<close>, a string, a boolean). For every integer
  \<open>n \<ge> 0\<close>, zero included, it gives a \<^verbatim>\<open>Timestep\<close> with frame 0, all scalars 0, and two
  different arrays of positions and velocities of shape \<open>(n, 3)\<close> filled with zeros.
\<close>

theorem Timestep_init_int:
  "(n < 0 \<longrightarrow> fst (Timestep_init (ArgInt n) s)
               = Inl (ValueError ''negative dimensions are not allowed''))
   \<and> (0 \<le> n \<longrightarrow>
        (\<exists>t s' v. Timestep_init (ArgInt n) s = (Inr t, s') \<and>
           frame t = 0 \<and> numatoms t = n \<and> time t = Some 0 \<and>
           pressure t = Some (PyFloat 0) \<and> total_energy t = Some (PyFloat 0) \<and>
           potential_energy t = Some (PyFloat 0) \<and> kinetic_energy t = Some (PyFloat 0) \<and>
           temperature t = Some (PyFloat 0) \<and>
           arrays s' (pos t) = \<lparr>shape = [nat n, 3], data = replicate (nat n * 3) 0\<rparr> \<and>
           velocities t = Some v \<and> v \<noteq> pos t \<and>
           arrays s' v = \<lparr>shape = [nat n, 3], data = replicate (nat n * 3) 0\<rparr> \<and>
           arrays s' (unitcell t) = \<lparr>shape = [9], data = replicate 9 0\<rparr>))
   \<and> fst (Timestep_init (ArgFloat x) s) = Inl (ValueError ''Cannot create an empty Timestep'')
   \<and> fst (Timestep_init ArgNone s) = Inl (ValueError ''Cannot create an empty Timestep'')
   \<and> fst (Timestep_init (ArgStr w) s) = Inl (ValueError ''Cannot create an empty Timestep'')
   \<and> fst (Timestep_init (ArgBool b) s) = Inl (ValueError ''Cannot create an empty Timestep'')"
  by (simp add: Timestep_init_def Timestep_of_int_def alloc_def np_zeros_def Let_def)

theorem Timestep_init_int_witness:
  "fst (Timestep_init (ArgInt (- 1)) store0)
     = Inl (ValueError ''negative dimensions are not allowed'')
   \<and> (\<exists>t s' v. Timestep_init (ArgInt 2) store0 = (Inr t, s') \<and> numatoms t = 2 \<and>
         arrays s' (pos t) = \<lparr>shape = [2, 3], data = replicate 6 0\<rparr> \<and>
         velocities t = Some v \<and>
         arrays s' v = \<lparr>shape = [2, 3], data = replicate 6 0\<rparr>)"
proof -
  from Timestep_init_int [of "- 1" store0 0 "[]" True]
  have a: "fst (Timestep_init (ArgInt (- 1)) store0)
     = Inl (ValueError ''negative dimensions are not allowed'')" by simp
  from Timestep_init_int [of 2 store0 0 "[]" True]
  have "\<exists>t s' v. Timestep_init (ArgInt 2) store0 = (Inr t, s') \<and> numatoms t = 2 \<and>
         arrays s' (pos t) = \<lparr>shape = [2, 3], data = replicate 6 0\<rparr> \<and>
         velocities t = Some v \<and>
         arrays s' v = \<lparr>shape = [2, 3], data = replicate 6 0\<rparr>"
    by simp blast
  with a show ?thesis by blast
qed

text \<open>
  The branch for a numpy array: an array that has not exactly 2 dimensions is refused
  with a ValueError; an array of shape \<open>(N, 3)\<close> gives a \<^verbatim>\<open>Timestep\<close> of \<open>N\<close> atoms whose
  positions are a copy of the array, with frame 0 and a unit cell of zeros. The
  velocities, the time and the other scalars are not assigned.
\<close>

lemma Timestep_init_array:
  "(length (shape a) \<noteq> 2 \<longrightarrow>
      Timestep_init (ArgArray a) s
        = (Inl (ValueError ''numpy array can only have 2 dimensions''), s))
   \<and> (length (shape a) = 2 \<and> shape a ! 1 = 3 \<longrightarrow>
        (\<exists>t s'. Timestep_init (ArgArray a) s = (Inr t, s') \<and> frame t = 0 \<and>
           numatoms t = int (shape a ! 0) \<and> arrays s' (pos t) = a \<and>
           arrays s' (unitcell t) = \<lparr>shape = [9], data = replicate 9 0\<rparr> \<and>
           velocities t = None \<and> time t = None \<and> pressure t = None \<and>
           pressure_tensor t = None \<and> total_energy t = None \<and> potential_energy t = None \<and>
           kinetic_energy t = None \<and> temperature t = None))"
  by (simp add: Timestep_init_def Timestep_of_array_def alloc_def has_xyz_def Let_def)

text \<open>
  C4: the claim asks for zeroed velocities and scalars after the construction from an
  \<open>N \<times> 3\<close> array. At the array \<open>[[1, 2, 3]]\<close> the constructor succeeds with one atom, and
  the attributes \<^verbatim>\<open>_velocities\<close>, \<^verbatim>\<open>time\<close>, \<^verbatim>\<open>pressure\<close>, \<^verbatim>\<open>pressure_tensor\<close> and the
  energies are never assigned: the copy constructor applied to the result raises
  AttributeError. The class documents these attributes for every \<^verbatim>\<open>Timestep\<close>, and the
  branch for an integer assigns them.
\<close>

theorem Timestep_init_array_unset:
  "Timestep_init (ArgArray \<lparr>shape = [1, 3], data = [1, 2, 3]\<rparr>) store0 =
     (Inr \<lparr>frame = 0, numatoms = 1, time = None, pressure = None, pressure_tensor = None,
           total_energy = None, potential_energy = None, kinetic_energy = None,
           temperature = None, unitcell = 0, pos = 1, velocities = None, status = None,
           step = None\<rparr>,
      snd (Timestep_init (ArgArray \<lparr>shape = [1, 3], data = [1, 2, 3]\<rparr>) store0))
   \<and> fst (Timestep_init (ArgTimestep
        \<lparr>frame = 0, numatoms = 1, time = None, pressure = None, pressure_tensor = None,
           total_energy = None, potential_energy = None, kinetic_energy = None,
           temperature = None, unitcell = 0, pos = 1, velocities = None, status = None,
           step = None\<rparr>)
        (snd (Timestep_init (ArgArray \<lparr>shape = [1, 3], data = [1, 2, 3]\<rparr>) store0)))
      = Inl AttributeError"
  by (simp add: Timestep_init_def Timestep_of_array_def Timestep_copy_def alloc_def has_xyz_def
      Let_def store0_def)

section \<open>\<^verbatim>\<open>dimensions\<close>\<close>

text \<open>
  C7: \<^verbatim>\<open>dimensions\<close> is a function of the unit cell alone. For a unit cell of 9 entries
  it is \<^verbatim>\<open>triclinic_box\<close> of the three vectors made of the entries 0 to 2, 3 to 5 and
  6 to 8; two snapshots with the same unit cell array have the same dimensions. It
  returns a value and no state: it assigns no attribute and writes to no array.
\<close>

theorem dimensions_spec:
  "(shape (arrays s (unitcell t)) = [9] \<and> length (data (arrays s (unitcell t))) = 9 \<longrightarrow>
      dimensions tb s t =
        tb \<lparr>shape = [3], data = map (\<lambda>i. data (arrays s (unitcell t)) ! i) [0, 1, 2]\<rparr>
           \<lparr>shape = [3], data = map (\<lambda>i. data (arrays s (unitcell t)) ! i) [3, 4, 5]\<rparr>
           \<lparr>shape = [3], data = map (\<lambda>i. data (arrays s (unitcell t)) ! i) [6, 7, 8]\<rparr>)
   \<and> (arrays s (unitcell t) = arrays s' (unitcell t') \<longrightarrow>
        dimensions tb s t = dimensions tb s' t')"
proof (intro conjI impI)
  assume a: "shape (arrays s (unitcell t)) = [9] \<and> length (data (arrays s (unitcell t))) = 9"
  then obtain a0 a1 a2 a3 a4 a5 a6 a7 a8 where
    u: "data (arrays s (unitcell t)) = [a0, a1, a2, a3, a4, a5, a6, a7, a8]"
    by (auto simp: length_Suc_conv numeral_eq_Suc)
  show "dimensions tb s t =
        tb \<lparr>shape = [3], data = map (\<lambda>i. data (arrays s (unitcell t)) ! i) [0, 1, 2]\<rparr>
           \<lparr>shape = [3], data = map (\<lambda>i. data (arrays s (unitcell t)) ! i) [3, 4, 5]\<rparr>
           \<lparr>shape = [3], data = map (\<lambda>i. data (arrays s (unitcell t)) ! i) [6, 7, 8]\<rparr>"
    using a by (simp add: dimensions_def slice0_def u)
next
  assume "arrays s (unitcell t) = arrays s' (unitcell t')"
  then show "dimensions tb s t = dimensions tb s' t'"
    by (simp add: dimensions_def)
qed

theorem dimensions_spec_witness:
  "dimensions (\<lambda>x y z. (data x, data y, data z))
     (store1\<lparr>arrays := (arrays store1)
        (3 := \<lparr>shape = [9], data = [10, 0, 0, 0, 10, 0, 0, 0, 10]\<rparr>)\<rparr>) ts1
   = ([10, 0, 0], [0, 10, 0], [0, 0, 10])"
  using dimensions_spec [of "store1\<lparr>arrays := (arrays store1)
        (3 := \<lparr>shape = [9], data = [10, 0, 0, 0, 10, 0, 0, 0, 10]\<rparr>)\<rparr>" ts1
        "\<lambda>x y z. (data x, data y, data z)"]
  by (simp add: ts1_def)

section \<open>\<^verbatim>\<open>open_trajectory\<close>\<close>



section \<open>Iterating over a trajectory\<close>

lemma int32_val_one: "int32_val [1, 0, 0, 0] = 1"
  by (simp add: int32_val_def le_nat_def)

lemma upt_0_2: "[0..<2] = [0, 1]"
  by (simp add: numeral_2_eq_2)

lemma valid_trz2: "valid_trz 1 2 trz2"
  by (simp add: valid_trz_def upt_0_2 frame_at_def frame_start_def frame_size_def trz2_def
      frame1_def int32_val_one)

lemma shapes_ok_reader1: "shapes_ok 1 (reader1 fc)"
  by (simp add: shapes_ok_def reader1_def ts1_def store1_def store0_def Timestep_init_def
      Timestep_of_int_def alloc_def np_zeros_def Let_def)

lemma frame_time_trz2: "frame_time 1 trz2 0 = 0" "frame_time 1 trz2 1 = 1"
  by (simp_all add: frame_time_def frame_start_def frame_size_def trz2_def frame1_def
      double_val_def le_nat_def scale2_def Let_def)

text \<open>
  C1: on a valid trajectory of \<open>k \<ge> 1\<close> frames, for a reader whose \<^verbatim>\<open>Timestep\<close> has the
  arrays of the trajectory's atom count, \<^verbatim>\<open>__iter__\<close> consumed to its end yields exactly
  \<open>k\<close> snapshots, the \<open>j\<close>-th of them (from 0) with the frame index \<open>j + 1\<close> when it is
  yielded, and ends with \<^verbatim>\<open>StopIteration\<close>: no exception reaches the consumer.
  \<^verbatim>\<open>numframes\<close> reports the same number, before the iteration and after it, and the
  reader is left on the first frame. (A reader exists only for a file with a first
  frame: the constructor reads it.)
\<close>

theorem iter_yields_numframes:
  assumes "valid_trz n k c" and "0 < k" and "path_content r = Some c" and "shapes_ok n r"
    and "numframes_cache r = None"
  shows "\<exists>ys rf. iter r = (ys, None, rf) \<and> length ys = k \<and>
           (\<forall>j<k. frame (ys ! j) = int j + 1) \<and>
           fst (numframes r) = Inr (int (length ys)) \<and>
           fst (numframes rf) = Inr (int (length ys)) \<and> on_frame n c 1 rf"
proof -
  from iter_valid [OF assms(1-4)] obtain ys rf where
    it: "iter r = (ys, None, rf)" "length ys = k" "\<forall>j<k. frame (ys ! j) = int j + 1"
    and on: "on_frame n c 1 rf" and le: "lay_eq r rf"
    by blast
  from numframes_valid [OF assms] have n1: "fst (numframes r) = Inr (int k)" by auto
  from on have "path_content rf = Some c" "shapes_ok n rf" by (simp_all add: on_frame_def)
  moreover from le assms(5) have "numframes_cache rf = None" by (simp add: lay_eq_def)
  ultimately have n2: "fst (numframes rf) = Inr (int k)"
    using numframes_valid [OF assms(1,2), of rf] by auto
  from it on n1 n2 show ?thesis by simp
qed

theorem iter_yields_numframes_witness:
  "\<exists>ys rf. iter (reader1 (Some trz2)) = (ys, None, rf) \<and> length ys = 2 \<and>
     frame (ys ! 0) = 1 \<and> frame (ys ! 1) = 2 \<and>
     fst (numframes (reader1 (Some trz2))) = Inr 2"
proof -
  have "path_content (reader1 (Some trz2)) = Some trz2"
    "numframes_cache (reader1 (Some trz2)) = None"
    by (simp_all add: reader1_def)
  from iter_yields_numframes [OF valid_trz2 _ this(1) shapes_ok_reader1 this(2)]
  obtain ys rf where "iter (reader1 (Some trz2)) = (ys, None, rf)" "length ys = 2"
    "\<forall>j<2. frame (ys ! j) = int j + 1"
    "fst (numframes (reader1 (Some trz2))) = Inr (int (length ys))"
    by auto
  then show ?thesis by (intro exI [of _ ys] exI [of _ rf]) auto
qed

section \<open>The constructor of the reader\<close>

lemma Timestep_of_int_shapes:
  "\<exists>t s'. Timestep_init (ArgInt (int n)) s = (Inr t, s') \<and>
     shape (arrays s' (unitcell t)) = [9] \<and> shape (arrays s' (pos t)) = [n, 3] \<and>
     (case velocities t of None \<Rightarrow> False | Some v \<Rightarrow> shape (arrays s' v) = [n, 3]) \<and>
     (case pressure_tensor t of None \<Rightarrow> False | Some a \<Rightarrow> shape (arrays s' a) = [6])"
  by (simp add: Timestep_init_def Timestep_of_int_def alloc_def np_zeros_def Let_def)

lemma TRZReader_init_first:
  assumes fa: "frame_at n c 100"
  shows "\<exists>r. TRZReader_init (Some c) (Some (int n)) conv lf vf s = Inr r \<and>
           on_frame n c 1 r \<and> numframes_cache r = None \<and> delta_cache r = None \<and>
           convert_units r = conv"
proof -
  from Timestep_of_int_shapes [of n s] obtain t s' where
    ti: "Timestep_init (ArgInt (int n)) s = (Inr t, s')"
    and sh: "shape (arrays s' (unitcell t)) = [9]" "shape (arrays s' (pos t)) = [n, 3]"
      "case velocities t of None \<Rightarrow> False | Some v \<Rightarrow> shape (arrays s' v) = [n, 3]"
      "case pressure_tensor t of None \<Rightarrow> False | Some a \<Rightarrow> shape (arrays s' a) = [6]"
    by blast
  let ?r0 = "\<lparr>path_content = Some c, trzfile = Some (c, 100), convert_units = conv,
              length_factor = lf, velocity_factor = vf, numatoms_cache = Some (NInt (int n)),
              numframes_cache = None, delta_cache = None, ts = t, heap = s'\<rparr>"
  have s0: "shapes_ok n ?r0" using sh by (auto simp: shapes_ok_def split: option.splits)
  from read_frame_ok [OF s0, of c 100] fa obtain r where
    rd: "read_next_timestep ?r0 = (Inr (ts r), r)"
    and f: "trzfile r = Some (c, 100 + frame_size n)"
    and fr: "frame (ts r) = frame (ts ?r0) + 1"
    and tm: "time (ts r) = Some (double_val (take 8 (drop (100 + 16) c)))"
    and le: "lay_eq ?r0 r" and sr: "shapes_ok n r"
    by auto
  from ti have ft: "frame t = 0"
    by (auto simp: Timestep_init_def Timestep_of_int_def alloc_def np_zeros_def Let_def)
  have "TRZReader_init (Some c) (Some (int n)) conv lf vf s = Inr r"
    using ti rd by (simp add: TRZReader_init_def)
  moreover have "on_frame n c 1 r"
    using f fr ft tm sr le by (simp add: on_frame_def lay_eq_def frame_time_def)
  moreover have "numframes_cache r = None" "delta_cache r = None" "convert_units r = conv"
    using le by (simp_all add: lay_eq_def)
  ultimately show ?thesis by blast
qed

lemma TRZReader_init_ok:
  assumes v: "valid_trz n k c" and k: "0 < k"
  shows "\<exists>r. TRZReader_init (Some c) (Some (int n)) conv lf vf s = Inr r \<and>
           on_frame n c 1 r \<and> numframes_cache r = None \<and> delta_cache r = None \<and>
           convert_units r = conv"
proof -
  from valid_trz_frame_at [OF v k] have "frame_at n c 100" by simp
  then show ?thesis by (rule TRZReader_init_first)
qed

section \<open>\<^verbatim>\<open>delta\<close>\<close>

lemma on_frame_next:
  assumes v: "valid_trz n k c" and i: "i < k" and on: "on_frame n c i r"
  shows "\<exists>r'. next_frame r = (Inr (ts r'), r') \<and> on_frame n c (Suc i) r' \<and> lay_eq r r'"
proof -
  from on have s: "shapes_ok n r" and f: "trzfile r = Some (c, frame_start n i)"
    and pc: "path_content r = Some c" and fr: "frame (ts r) = int i"
    by (simp_all add: on_frame_def)
  from read_frame_ok [OF s f valid_trz_frame_at [OF v i]] obtain r' where
    rd: "read_next_timestep r = (Inr (ts r'), r')"
    and f': "trzfile r' = Some (c, frame_start n i + frame_size n)"
    and fr': "frame (ts r') = frame (ts r) + 1"
    and tm: "time (ts r') = Some (double_val (take 8 (drop (frame_start n i + 16) c)))"
    and le: "lay_eq r r'" and sr: "shapes_ok n r'"
    by auto
  have "on_frame n c (Suc i) r'"
    using f' fr' fr tm sr le pc by (simp add: on_frame_def lay_eq_def frame_time_def)
  with rd le show ?thesis by (auto simp: next_frame_def)
qed

lemma on_frame_last:
  assumes v: "valid_trz n k c" and on: "on_frame n c k r"
  shows "fst (next_frame r) = Inl (IOError None) \<and> lay_eq r (snd (next_frame r))"
proof -
  from on have f: "trzfile r = Some (c, frame_start n k)" by (simp add: on_frame_def)
  from read_eof [OF f] valid_trz_length [OF v]
  have "fst (read_next_timestep r) = Inl (IOError None)" by simp
  then show ?thesis using read_next_timestep_lay_eq [of r] by (simp add: next_frame_def)
qed

lemma on_frame_delta_cache: "on_frame n c i r \<Longrightarrow> on_frame n c i (r\<lparr>delta_cache := x\<rparr>)"
  by (auto simp: on_frame_def shapes_ok_def split: option.splits)

lemma delta_mid:
  assumes v: "valid_trz n k c" and i: "0 < i" "i < k" and on: "on_frame n c i r"
    and dc: "delta_cache r = None"
  shows "\<exists>rf. delta r = (Inr (frame_time n c i - frame_time n c (i - 1)), rf) \<and>
           delta_cache rf = Some (frame_time n c i - frame_time n c (i - 1)) \<and>
           on_frame n c 1 rf"
proof -
  let ?d = "frame_time n c i - frame_time n c (i - 1)"
  from on have t0: "time (ts r) = Some (frame_time n c (i - 1))" by (simp add: on_frame_def)
  from on_frame_next [OF v i(2) on] obtain r1 where
    nx: "next_frame r = (Inr (ts r1), r1)" and on1: "on_frame n c (Suc i) r1" by blast
  from on1 have t1: "time (ts r1) = Some (frame_time n c i)" by (simp add: on_frame_def)
  let ?r2 = "r1\<lparr>delta_cache := Some ?d\<rparr>"
  have db: "delta_body r = (Inr ?d, ?r2)"
    using t0 nx t1 by (simp add: delta_body_def bnd_def attr_def ret_def)
  from on1 have on2: "on_frame n c (Suc i) ?r2" by (rule on_frame_delta_cache)
  then have pc2: "path_content ?r2 = Some c" and s2: "shapes_ok n ?r2"
    by (simp_all add: on_frame_def)
  from valid_trz_frame_at [OF v, of 0] i have fa: "frame_at n c 100" by simp
  from rewind_ok [OF pc2 s2 fa] obtain rf where
    rw: "rewind ?r2 = (Inr (), rf)" and onf: "on_frame n c 1 rf" and le: "lay_eq ?r2 rf"
    by blast
  have "delta r = (Inr ?d, rf)" using dc db rw by (simp add: delta_def)
  moreover from le have "delta_cache rf = Some ?d" by (simp add: lay_eq_def)
  ultimately show ?thesis using onf by blast
qed

lemma delta_last:
  assumes v: "valid_trz n k c" and k: "0 < k" and on: "on_frame n c k r"
    and dc: "delta_cache r = None"
  shows "\<exists>rf. delta r = (Inr 0, rf) \<and> delta_cache rf = None \<and> on_frame n c 1 rf"
proof -
  from on have t0: "time (ts r) = Some (frame_time n c (k - 1))"
    and pc: "path_content r = Some c" and s: "shapes_ok n r"
    by (simp_all add: on_frame_def)
  obtain r1 where nx: "next_frame r = (Inl (IOError None), r1)" and l1: "lay_eq r r1"
    using on_frame_last [OF v on] by (cases "next_frame r") auto
  have db: "delta_body r = (Inl (IOError None), r1)"
    using t0 nx by (simp add: delta_body_def bnd_def attr_def)
  from l1 pc have pc1: "path_content r1 = Some c" by (simp add: lay_eq_def)
  have s1: "shapes_ok n r1" using l1 s by (rule shapes_ok_lay_eq)
  from valid_trz_frame_at [OF v k] have fa: "frame_at n c 100" by simp
  from rewind_ok [OF pc1 s1 fa] obtain rf where
    rw: "rewind r1 = (Inr (), rf)" and onf: "on_frame n c 1 rf" and le: "lay_eq r1 rf"
    by blast
  have "delta r = (Inr 0, rf)" using dc db rw by (simp add: delta_def)
  moreover from le l1 dc have "delta_cache rf = None" by (simp add: lay_eq_def)
  ultimately show ?thesis using onf by blast
qed

text \<open>
  C3, as stated, fails. \<^verbatim>\<open>delta\<close> measures from the frame the reader stands on, not
  from frame 1, and caches nothing when the advance fails. On the trajectory of two
  frames at the times 0.0 and 1.0, with the reader advanced to frame 2, \<^verbatim>\<open>delta\<close>
  returns 0 and leaves the cache empty, while the time of frame 2 minus the time of
  frame 1 is 1: the next call computes again, and returns 1.
\<close>

theorem delta_on_last_frame:
  "\<exists>r0 t r1. TRZReader_init (Some trz2) (Some 1) False 10 10 store0 = Inr r0 \<and>
     next_frame r0 = (Inr t, r1) \<and> frame (ts r1) = 2 \<and>
     fst (delta r1) = Inr 0 \<and> delta_cache (snd (delta r1)) = None \<and>
     frame_time 1 trz2 1 - frame_time 1 trz2 0 = 1"
proof -
  from TRZReader_init_ok [OF valid_trz2, of False 10 10 store0] obtain r0 where
    i0: "TRZReader_init (Some trz2) (Some 1) False 10 10 store0 = Inr r0"
    and on0: "on_frame 1 trz2 1 r0" and dc0: "delta_cache r0 = None"
    by auto
  from on_frame_next [OF valid_trz2 _ on0] obtain r1 where
    nx: "next_frame r0 = (Inr (ts r1), r1)" and on1: "on_frame 1 trz2 (Suc 1) r1"
    and le: "lay_eq r0 r1"
    by auto
  from le dc0 have dc1: "delta_cache r1 = None" by (simp add: lay_eq_def)
  from on1 have on2: "on_frame 1 trz2 2 r1" by (simp add: numeral_2_eq_2)
  from delta_last [OF valid_trz2 _ on2 dc1] obtain rf where
    "delta r1 = (Inr 0, rf)" "delta_cache rf = None" by auto
  moreover from on2 have "frame (ts r1) = 2" by (simp add: on_frame_def)
  ultimately show ?thesis using i0 nx frame_time_trz2 by simp
qed

text \<open>
  C3, amended: on a valid trajectory of \<open>k\<close> frames, with the reader on the frame \<open>i\<close>
  (from 1) and an empty cache, \<^verbatim>\<open>delta\<close> returns the time of the frame \<open>i + 1\<close> minus
  the time of the frame \<open>i\<close> when \<open>i < k\<close>, stores it in the cache, and every later call
  returns the cached value with no read; on the last frame the advance fails, \<^verbatim>\<open>delta\<close>
  returns 0 and caches nothing. In both cases the reader is rewound to frame 1. With
  the reader on frame 1, as after the construction, a rewind, a completed iteration or
  \<^verbatim>\<open>numframes\<close>, and \<open>k \<ge> 2\<close>, this is the time of frame 2 minus the time of frame 1.
  (\<open>frame_time n c j\<close> is the time field of the frame \<open>j + 1\<close>.)
\<close>

theorem delta_spec:
  assumes "valid_trz n k c" and "0 < i" and "i \<le> k" and "on_frame n c i r"
    and "delta_cache r = None"
  shows "\<exists>rf. delta r
             = (Inr (if i < k then frame_time n c i - frame_time n c (i - 1) else 0), rf) \<and>
           delta_cache rf
             = (if i < k then Some (frame_time n c i - frame_time n c (i - 1)) else None) \<and>
           on_frame n c 1 rf \<and>
           (i < k \<longrightarrow> delta rf = (Inr (frame_time n c i - frame_time n c (i - 1)), rf))"
proof (cases "i < k")
  case True
  from delta_mid [OF assms(1,2) True assms(4,5)] obtain rf where
    d: "delta r = (Inr (frame_time n c i - frame_time n c (i - 1)), rf)"
    "delta_cache rf = Some (frame_time n c i - frame_time n c (i - 1))" "on_frame n c 1 rf"
    by blast
  from d(2) have "delta rf = (Inr (frame_time n c i - frame_time n c (i - 1)), rf)"
    by (simp add: delta_def)
  with d True show ?thesis by simp
next
  case False
  with assms(3) have ik: "i = k" by simp
  have kp: "0 < k" using assms(2) ik by simp
  have onk: "on_frame n c k r" using assms(4) ik by simp
  from delta_last [OF assms(1) kp onk assms(5)] obtain rf where
    "delta r = (Inr 0, rf)" "delta_cache rf = None" "on_frame n c 1 rf" by auto
  with False show ?thesis by simp
qed

theorem delta_spec_witness:
  "\<exists>r0 rf. TRZReader_init (Some trz2) (Some 1) False 10 10 store0 = Inr r0 \<and>
     delta r0 = (Inr 1, rf) \<and> delta_cache rf = Some 1 \<and> on_frame 1 trz2 1 rf \<and>
     delta rf = (Inr 1, rf)"
proof -
  from TRZReader_init_ok [OF valid_trz2, of False 10 10 store0] obtain r0 where
    i0: "TRZReader_init (Some trz2) (Some 1) False 10 10 store0 = Inr r0"
    and on0: "on_frame 1 trz2 1 r0" and dc0: "delta_cache r0 = None"
    by auto
  from delta_spec [OF valid_trz2 _ _ on0 dc0] frame_time_trz2 obtain rf where
    "delta r0 = (Inr 1, rf)" "delta_cache rf = Some 1" "on_frame 1 trz2 1 rf"
    "delta rf = (Inr 1, rf)"
    by auto
  with i0 show ?thesis by blast
qed

section \<open>The metadata queries and a missing path\<close>

lemma delta_body_path: "path_content (snd (delta_body r)) = path_content r"
proof -
  have tr: "\<And>a b c. same_path a b \<Longrightarrow> same_path b c \<Longrightarrow> same_path a c"
    by (simp add: same_path_def)
  have rf: "\<And>r. same_path r r" by (simp add: same_path_def)
  have nx: "pres same_path next_frame"
    using read_next_timestep_lay_eq
    by (simp add: pres_def same_path_def next_frame_def lay_eq_def)
  have st: "\<And>x. pres same_path (\<lambda>r. (Inr (), r\<lparr>delta_cache := x\<rparr>))"
    by (simp add: pres_def same_path_def)
  have "pres same_path delta_body"
    unfolding delta_body_def
    by (intro pres_bnd [of same_path, OF tr] pres_attr [OF rf] pres_ret [OF rf] nx st)
  then show ?thesis by (simp add: pres_def same_path_def)
qed

lemma rewind_missing:
  "path_content r = None \<Longrightarrow> fst (rewind r) = Inl (IOError (Some ENOENT))"
  by (simp add: rewind_def bnd_def reopen_missing)

lemma delta_missing_path:
  assumes "path_content r = None" and "delta_cache r = None"
  shows "fst (delta r) = Inl (IOError (Some ENOENT))"
proof -
  obtain res r1 where db: "delta_body r = (res, r1)" by (cases "delta_body r")
  with delta_body_path [of r] assms(1) have "path_content r1 = None" by simp
  from rewind_missing [OF this] obtain r2 where
    "rewind r1 = (Inl (IOError (Some ENOENT)), r2)" by (cases "rewind r1") auto
  with db assms(2) show ?thesis by (cases res) (simp_all add: delta_def)
qed

lemma numframes_missing_path:
  assumes "path_content r = None" and "numframes_cache r = None"
  shows "fst (numframes r) = Inr 0"
  using assms by (simp add: numframes_def read_trz_numframes_def bnd_def reopen_missing)

lemma numframes_no_IOError: "fst (numframes r) = Inl e \<Longrightarrow> \<not> is_IOError e"
  by (auto simp: numframes_def split: option.splits prod.splits sum.splits if_splits)

lemma numatoms_no_IOError: "fst (numatoms_reader r) = Inl e \<Longrightarrow> \<not> is_IOError e"
  by (auto simp: numatoms_reader_def split: option.splits prod.splits sum.splits if_splits)

text \<open>
  C8: the metadata queries are to turn an IOError into the value 0. \<^verbatim>\<open>numframes\<close> and
  \<^verbatim>\<open>numatoms\<close> never raise an IOError (\<open>numframes_no_IOError\<close>,
  \<open>numatoms_no_IOError\<close>). \<^verbatim>\<open>delta\<close> does: its \<^verbatim>\<open>finally\<close> clause calls \<^verbatim>\<open>rewind\<close>
  outside the \<^verbatim>\<open>try\<close>, and an IOError raised there replaces the value 0 that the
  \<^verbatim>\<open>except\<close> clause was about to return. For a reader made on the trajectory of two
  frames whose file is then removed, \<^verbatim>\<open>delta\<close> raises IOError (ENOENT), while
  \<^verbatim>\<open>numframes\<close> returns 0 and \<^verbatim>\<open>numatoms\<close> the cached atom count.
\<close>

theorem delta_raises_when_path_missing:
  "\<exists>r0. TRZReader_init (Some trz2) (Some 1) False 10 10 store0 = Inr r0 \<and>
     fst (delta (r0\<lparr>path_content := None\<rparr>)) = Inl (IOError (Some ENOENT)) \<and>
     fst (numframes (r0\<lparr>path_content := None\<rparr>)) = Inr 0 \<and>
     fst (numatoms_reader (r0\<lparr>path_content := None\<rparr>)) = Inr (NInt 1)"
proof -
  from TRZReader_init_ok [OF valid_trz2, of False 10 10 store0] obtain r0 where
    i0: "TRZReader_init (Some trz2) (Some 1) False 10 10 store0 = Inr r0"
    and nc: "numframes_cache r0 = None" and dc: "delta_cache r0 = None"
    by auto
  have "numatoms_cache r0 = Some (NInt 1)"
  proof -
    obtain t s' where ti: "Timestep_init (ArgInt 1) store0 = (Inr t, s')"
      using Timestep_of_int_shapes [of 1 store0] by auto
    let ?ra = "\<lparr>path_content = Some trz2, trzfile = Some (trz2, 100), convert_units = False,
              length_factor = 10, velocity_factor = 10, numatoms_cache = Some (NInt 1),
              numframes_cache = None, delta_cache = None, ts = t, heap = s'\<rparr>"
    from i0 ti have "snd (read_next_timestep ?ra) = r0"
      by (auto simp: TRZReader_init_def split: prod.splits sum.splits)
    with read_next_timestep_lay_eq [of ?ra] show ?thesis by (simp add: lay_eq_def)
  qed
  then have "fst (numatoms_reader (r0\<lparr>path_content := None\<rparr>)) = Inr (NInt 1)"
    by (simp add: numatoms_reader_def)
  moreover have "fst (delta (r0\<lparr>path_content := None\<rparr>)) = Inl (IOError (Some ENOENT))"
    using dc by (intro delta_missing_path) simp_all
  moreover have "fst (numframes (r0\<lparr>path_content := None\<rparr>)) = Inr 0"
    using nc by (intro numframes_missing_path) simp_all
  ultimately show ?thesis using i0 by blast
qed

section \<open>A truncated frame record\<close>
















section \<open>The copy constructor\<close>







lemma Timestep_copy_succeeds:
  assumes "time t \<noteq> None" and "pressure t \<noteq> None" and "pressure_tensor t \<noteq> None"
    and "total_energy t \<noteq> None" and "potential_energy t \<noteq> None"
    and "kinetic_energy t \<noteq> None" and "temperature t \<noteq> None" and "velocities t \<noteq> None"
    and "allocated s t" and "has_xyz (arrays s (pos t))"
  shows "\<exists>u s'. Timestep_init (ArgTimestep t) s = (Inr u, s')"
  using assms
  by (auto simp: Timestep_init_def Timestep_copy_def alloc_def Let_def allocated_def fpset_def)



end
